theory Spec2Isabelle
  imports Complex_Main "HOL-Library.Word"
begin

section \<open>Strings of the source language\<close>

text \<open>
  The program is TypeScript. Its strings are sequences of UTF-16 code units: \<open>length\<close>,
  \<open>slice\<close> and the regular expressions (none carries the \<open>u\<close> flag) all count code
  units. A string is therefore a list of 16-bit words. Every Korean literal of the source
  is a sequence of code units of the Basic Multilingual Plane and is written out here by
  its code units; ASCII literals are written through \<open>ascii\<close>.
\<close>

type_synonym ustring = "16 word list"

definition ascii :: "string \<Rightarrow> ustring" where
  "ascii s = map (\<lambda>c. of_nat (of_char c)) s"

text \<open>
  The characters matched by \<open>\s\<close> in a regular expression and removed by
  \<open>String.prototype.trim\<close>: the WhiteSpace and LineTerminator productions of ECMAScript.
\<close>

definition isSpace :: "16 word \<Rightarrow> bool" where
  "isSpace c =
     (c \<in> set [0x0009, 0x000A, 0x000B, 0x000C, 0x000D, 0x0020, 0x00A0, 0x1680,
               0x2028, 0x2029, 0x202F, 0x205F, 0x3000, 0xFEFF]
      \<or> (0x2000 \<le> c \<and> c \<le> 0x200A))"

text \<open>\<open>s.trim()\<close>\<close>

definition trim :: "ustring \<Rightarrow> ustring" where
  "trim s = rev (dropWhile isSpace (rev (dropWhile isSpace s)))"

text \<open>\<open>s.endsWith(suf)\<close>, used to read a regular expression anchored with \<open>$\<close>.\<close>

definition endsWith :: "ustring \<Rightarrow> ustring \<Rightarrow> bool" where
  "endsWith s suf = (length suf \<le> length s \<and> drop (length s - length suf) s = suf)"

text \<open>\<open>xs.join(sep)\<close> on an array of strings.\<close>

fun join :: "ustring \<Rightarrow> ustring list \<Rightarrow> ustring" where
  "join sep [] = []"
| "join sep [x] = x"
| "join sep (x # y # ys) = x @ sep @ join sep (y # ys)"

section \<open>summarizeKorean\<close>

text \<open>The literals of \<open>summarizeKorean\<close>.\<close>

definition insufficient :: ustring where
  \<comment> \<open>the sentence returned for an empty plot\<close>
  "insufficient =
     [0xC791, 0xD488, 0x0020, 0xC815, 0xBCF4, 0xAC00, 0x0020, 0xBD80, 0xC871, 0xD558,
      0xC5EC, 0x0020, 0xAC04, 0xB2E8, 0x0020, 0xC694, 0xC57D, 0xC744, 0x0020, 0xC81C,
      0xACF5, 0xD558, 0xC9C0, 0x0020, 0xBABB, 0xD558, 0xB2E4, 0x002E]"

definition hada :: ustring where
  \<comment> \<open>the marker, two Hangul syllables U+D558 U+B2E4\<close>
  "hada = [0xD558, 0xB2E4]"

definition ipnida :: ustring where
  \<comment> \<open>the three syllables U+C785 U+B2C8 U+B2E4\<close>
  "ipnida = [0xC785, 0xB2C8, 0xB2E4]"

definition ellipsis :: "16 word" where
  "ellipsis = 0x2026"

definition terminators :: "16 word list" where
  \<comment> \<open>the class \<open>[.!?]\<close>\<close>
  "terminators = [0x002E, 0x0021, 0x003F]"

text \<open>\<open>.replace(/\s+/g, " ")\<close>: every maximal run of white space becomes one space.\<close>

function collapseWhitespace :: "ustring \<Rightarrow> ustring" where
  "collapseWhitespace [] = []"
| "collapseWhitespace (c # cs) =
     (if isSpace c then 0x0020 # collapseWhitespace (dropWhile isSpace cs)
      else c # collapseWhitespace cs)"
  by pat_completeness auto
termination
  by (relation "measure length") (auto simp: less_Suc_eq_le length_dropWhile_le)

text \<open>
  \<open>.replace(/[.!?]\s+/g, "\<dots>. ")\<close>: a terminator followed by at least one white-space
  character is replaced, with the whole run of white space after it, by the marker, a
  period and a space. The scan resumes after the match; a terminator not followed by
  white space is kept.
\<close>

function rewriteTerminators :: "ustring \<Rightarrow> ustring" where
  "rewriteTerminators [] = []"
| "rewriteTerminators [c] = [c]"
| "rewriteTerminators (c # d # cs) =
     (if c \<in> set terminators \<and> isSpace d
      then hada @ [0x002E, 0x0020] @ rewriteTerminators (dropWhile isSpace cs)
      else c # rewriteTerminators (d # cs))"
  by pat_completeness auto
termination
  by (relation "measure length") (auto simp: less_Suc_eq_le le_SucI length_dropWhile_le)

text \<open>\<open>.replace(/\<dots>/g, "\<dots>")\<close> with the three-syllable literal as pattern.\<close>

fun replaceIpnida :: "ustring \<Rightarrow> ustring" where
  "replaceIpnida (a # b # c # rest) =
     (if [a, b, c] = ipnida then hada @ replaceIpnida rest
      else a # replaceIpnida (b # c # rest))"
| "replaceIpnida cs = cs"

text \<open>The constant \<open>cleaned\<close> of the source, as a function of the plot.\<close>

definition cleaned :: "ustring \<Rightarrow> ustring" where
  "cleaned plot = replaceIpnida (rewriteTerminators (collapseWhitespace plot))"

text \<open>The constant \<open>out\<close>: \<open>cleaned.length > 360 ? cleaned.slice(0, 356) + "\<dots>" : cleaned\<close>.\<close>

definition truncated :: "ustring \<Rightarrow> ustring" where
  "truncated cl = (if 360 < length cl then take 356 cl @ [ellipsis] else cl)"

text \<open>
  The test of the last line: the marker, then at most one character of the class
  (period, question mark, exclamation mark, ellipsis), then the end of the string.
\<close>

definition testEnding :: "ustring \<Rightarrow> bool" where
  "testEnding out =
     (endsWith out hada
      \<or> (out \<noteq> [] \<and> last out \<in> set [0x002E, 0x003F, 0x0021, ellipsis]
          \<and> endsWith (butlast out) hada))"

definition summarizeKorean :: "ustring \<Rightarrow> ustring" where
  "summarizeKorean plot =
     (if plot = [] then insufficient
      else let out = truncated (cleaned plot)
           in if testEnding out then out else out @ hada @ [0x002E])"


section \<open>featuresFromData\<close>

definition director_prefix :: ustring where
  \<comment> \<open>two syllables, a colon and a space: the label of the director clause\<close>
  "director_prefix = [0xC5F0, 0xCD9C, 0x003A, 0x0020]"

definition genre_prefix :: ustring where
  \<comment> \<open>the label of the genre clause, ending in a colon and a space\<close>
  "genre_prefix = [0xC7A5, 0xB974, 0x0020, 0xACB0, 0xD569, 0x003A, 0x0020]"

definition fixed_clause :: ustring where
  \<comment> \<open>the clause pushed unconditionally\<close>
  "fixed_clause = [0xB9AC, 0xB4EC, 0xAC10, 0x0020, 0xC788, 0xB294, 0x0020, 0xC804, 0xAC1C]"

text \<open>
  \<open>genres\<close> is declared \<open>string[]\<close>, and the body reads it through \<open>genres?.length\<close>:
  \<open>None\<close> is an absent array, which the optional chaining turns into a false test.
\<close>

definition featuresFromData :: "ustring \<Rightarrow> ustring list option \<Rightarrow> ustring" where
  "featuresFromData director genres =
     (let base0 = [];
          base1 = (if director \<noteq> [] then base0 @ [director_prefix @ director] else base0);
          base2 = (case genres of
                     None \<Rightarrow> base1
                   | Some gs \<Rightarrow>
                       if length gs \<noteq> 0
                       then base1 @ [genre_prefix @ join (ascii '', '') (take 3 gs)]
                       else base1);
          base3 = base2 @ [fixed_clause]
      in join (ascii '' / '') base3)"

section \<open>Errors, outbound calls and the environment\<close>

text \<open>
  What the handler can catch: an \<open>Error\<close> built with a message (by this program or by
  a rejected outbound call), the \<open>TypeError\<close> the engine raises when a property of
  \<open>null\<close> is read, and the \<open>URIError\<close> of \<open>encodeURIComponent\<close>. The messages of the
  last two are the engine's.
\<close>

datatype error = Error ustring | TypeErrorNull | URIError

text \<open>
  A value produced by \<open>JSON.parse\<close>. A number is the rational value of the parsed double;
  an object is the list of its own properties, each key once.
\<close>

datatype json =
    JNull
  | JBool bool
  | JNum rat
  | JStr ustring
  | JArr "json list"
  | JObj "(ustring \<times> json) list"

text \<open>The truth value the operators \<open>||\<close> and \<open>!\<close> give a value.\<close>

fun truthy :: "json \<Rightarrow> bool" where
  "truthy JNull = False"
| "truthy (JBool b) = b"
| "truthy (JNum q) = (q \<noteq> 0)"
| "truthy (JStr s) = (s \<noteq> [])"
| "truthy (JArr xs) = True"
| "truthy (JObj kvs) = True"

text \<open>
  The property values the handler builds: \<open>asRichText\<close>, \<open>asMultiSelect\<close>, \<open>asDate\<close> and
  the literal of the status property.
\<close>

datatype propvalue =
    RichText ustring
  | MultiSelect "ustring list"
  | DateStart ustring
  | StatusName ustring

text \<open>
  The object \<open>props\<close>: its keys in insertion order, which is the order of
  \<open>Object.keys\<close>; the value \<open>None\<close> is \<open>undefined\<close>.
\<close>

type_synonym props = "(ustring \<times> propvalue option) list"

text \<open>The provider's JSON object; each field is a string when it is present.\<close>

record omdb_json =
  Response :: "ustring option"
  Error_field :: "ustring option"
  Director :: "ustring option"
  Plot :: "ustring option"
  Genre :: "ustring option"
  Released :: "ustring option"
  Writer :: "ustring option"
  Actors :: "ustring option"

text \<open>The object returned by \<open>fetchFromOMDb\<close>.\<close>

record metadata =
  director :: ustring
  plot :: ustring
  genres :: "ustring list"
  released :: ustring
  writers :: ustring
  actors :: ustring

text \<open>The part of a Notion page that \<open>getTitle\<close> reads.\<close>

datatype fragment = Fragment (plain_text: "ustring option")

datatype property = Property (title: "fragment option list option")

datatype page = Page (properties: "(ustring \<times> property) list option")

text \<open>The outbound calls, in the order they are issued.\<close>

datatype call =
    PagesRetrieve json
  | HttpGet ustring
  | PagesUpdate json props

text \<open>
  What the program reads from outside itself: the environment variable
  \<open>OMDB_API_KEY\<close>, the answers of the two Notion calls and of the provider (an error when
  the call rejects, \<open>res.json()\<close> included), and the engine's \<open>Date\<close> parser, which gives
  a time value in milliseconds since the epoch or \<open>None\<close> for an invalid date.
\<close>

record env =
  OMDB :: "ustring option"
  pagesRetrieve :: "json \<Rightarrow> error + page"
  fetchJson :: "ustring \<Rightarrow> error + omdb_json"
  pagesUpdate :: "json \<Rightarrow> props \<Rightarrow> error + unit"
  dateParse :: "ustring \<Rightarrow> int option"

section \<open>fetchFromOMDb\<close>

text \<open>
  \<open>encodeURIComponent\<close>: the unreserved characters are kept, every other code point is
  written as the percent-escaped octets of its UTF-8 form, and an unpaired surrogate
  raises \<open>URIError\<close>.
\<close>

definition unreserved :: "16 word \<Rightarrow> bool" where
  "unreserved c =
     ((0x41 \<le> c \<and> c \<le> 0x5A) \<or> (0x61 \<le> c \<and> c \<le> 0x7A) \<or> (0x30 \<le> c \<and> c \<le> 0x39)
      \<or> c \<in> set [0x2D, 0x5F, 0x2E, 0x21, 0x7E, 0x2A, 0x27, 0x28, 0x29])"

definition hexDigit :: "nat \<Rightarrow> 16 word" where
  "hexDigit n = (if n < 10 then of_nat (48 + n) else of_nat (55 + n))"

definition percent :: "nat \<Rightarrow> ustring" where
  "percent b = [0x25, hexDigit (b div 16), hexDigit (b mod 16)]"

definition utf8 :: "nat \<Rightarrow> nat list" where
  "utf8 cp =
     (if cp < 0x80 then [cp]
      else if cp < 0x800 then [0xC0 + cp div 64, 0x80 + cp mod 64]
      else if cp < 0x10000
        then [0xE0 + cp div 4096, 0x80 + (cp div 64) mod 64, 0x80 + cp mod 64]
      else [0xF0 + cp div 262144, 0x80 + (cp div 4096) mod 64,
            0x80 + (cp div 64) mod 64, 0x80 + cp mod 64])"

definition escape :: "nat \<Rightarrow> ustring" where
  "escape cp = concat (map percent (utf8 cp))"

definition isHigh :: "16 word \<Rightarrow> bool" where
  "isHigh c = (0xD800 \<le> c \<and> c \<le> 0xDBFF)"

definition isLow :: "16 word \<Rightarrow> bool" where
  "isLow c = (0xDC00 \<le> c \<and> c \<le> 0xDFFF)"

fun encodeURIComponent :: "ustring \<Rightarrow> error + ustring" where
  "encodeURIComponent [] = Inr []"
| "encodeURIComponent [c] =
     (if unreserved c then Inr [c]
      else if isHigh c \<or> isLow c then Inl URIError
      else Inr (escape (unat c)))"
| "encodeURIComponent (c # d # cs) =
     (if unreserved c then map_sum id ((#) c) (encodeURIComponent (d # cs))
      else if isLow c then Inl URIError
      else if isHigh c
        then (if isLow d
              then map_sum id
                     ((@) (escape (0x10000 + (unat c - 0xD800) * 0x400 + (unat d - 0xDC00))))
                     (encodeURIComponent cs)
              else Inl URIError)
      else map_sum id ((@) (escape (unat c))) (encodeURIComponent (d # cs)))"

text \<open>\<open>s.split(",")\<close>: the pieces between the commas; one piece (the empty one) for \<open>""\<close>.\<close>

fun splitComma :: "ustring \<Rightarrow> ustring list" where
  "splitComma [] = [[]]"
| "splitComma (c # cs) =
     (if c = 0x2C then [] # splitComma cs
      else case splitComma cs of
             [] \<Rightarrow> [[c]]
           | p # ps \<Rightarrow> (c # p) # ps)"

text \<open>\<open>x || ""\<close> on an optional string.\<close>

definition orEmpty :: "ustring option \<Rightarrow> ustring" where
  "orEmpty x = (case x of None \<Rightarrow> [] | Some s \<Rightarrow> s)"

definition key_missing :: ustring where
  \<comment> \<open>the message thrown when the key is not configured\<close>
  "key_missing = ascii ''OMDB_API_KEY '' @ [0xB204, 0xB77D]"

text \<open>
  \<open>fetchFromOMDb\<close>, with the outbound calls made so far as state. The request is one GET
  to the URL built from the key and the encoded title.
\<close>

definition fetchFromOMDb ::
  "env \<Rightarrow> ustring \<Rightarrow> call list \<Rightarrow> (error + metadata) \<times> call list" where
  "fetchFromOMDb e ttl calls =
     (if orEmpty (OMDB e) = [] then (Inl (Error key_missing), calls)
      else case encodeURIComponent ttl of
        Inl err \<Rightarrow> (Inl err, calls)
      | Inr enc \<Rightarrow>
          let url = ascii ''https://www.omdbapi.com/?apikey='' @ orEmpty (OMDB e)
                    @ ascii ''&t='' @ enc @ ascii ''&plot=full'';
              calls' = calls @ [HttpGet url]
          in case fetchJson e url of
               Inl err \<Rightarrow> (Inl err, calls')
             | Inr js \<Rightarrow>
                 if Response js = Some (ascii ''False'')
                 then (Inl (Error (if orEmpty (Error_field js) \<noteq> []
                                   then orEmpty (Error_field js)
                                   else ascii ''OMDb not found'')), calls')
                 else (Inr \<lparr> director = orEmpty (Director js),
                             plot = orEmpty (Plot js),
                             genres = filter (\<lambda>g. g \<noteq> [])
                                        (map trim (splitComma (orEmpty (Genre js)))),
                             released = orEmpty (Released js),
                             writers = orEmpty (Writer js),
                             actors = orEmpty (Actors js) \<rparr>, calls'))"

section \<open>getTitle and the property builders\<close>

definition title_default :: ustring where
  \<comment> \<open>the default of the parameter \<open>titlePropName\<close>\<close>
  "title_default = [0xC81C, 0xBAA9]"

text \<open>\<open>t?.plain_text\<close> as \<open>join\<close> prints it: nothing for an absent fragment or text.\<close>

definition fragmentText :: "fragment option \<Rightarrow> ustring" where
  "fragmentText t = orEmpty (Option.bind t plain_text)"

definition getTitle :: "page \<Rightarrow> ustring \<Rightarrow> ustring" where
  "getTitle notionPage titlePropName =
     (let prop = Option.bind (properties notionPage) (\<lambda>ps. map_of ps titlePropName);
          ttl = Option.bind prop title;
          first = Option.bind ttl (\<lambda>ts. case ts of [] \<Rightarrow> None
                                          | t # _ \<Rightarrow> Option.bind t plain_text);
          joined = map_option (\<lambda>ts. concat (map fragmentText ts)) ttl;
          text = (if orEmpty first \<noteq> [] then orEmpty first
                  else if orEmpty joined \<noteq> [] then orEmpty joined
                  else [])
      in trim text)"

definition asRichText :: "ustring \<Rightarrow> propvalue" where
  "asRichText content = RichText content"

definition asMultiSelect :: "ustring list \<Rightarrow> propvalue" where
  "asMultiSelect names = MultiSelect names"

definition asDate :: "ustring option \<Rightarrow> propvalue option" where
  "asDate isoDate =
     (if orEmpty isoDate \<noteq> [] then Some (DateStart (orEmpty isoDate)) else None)"

section \<open>parseReleasedToISO\<close>

text \<open>
  \<open>Date.prototype.toISOString\<close>, after ECMAScript: the time value is split into the day
  number and the time within the day; the day number gives year, month and day of the
  proleptic Gregorian calendar in UTC. Years from 0 to 9999 are written with four digits,
  the others with a sign and six digits.
\<close>

definition msPerDay :: int where
  "msPerDay = 86400000"

definition DayFromYear :: "int \<Rightarrow> int" where
  "DayFromYear y =
     365 * (y - 1970) + (y - 1969) div 4 - (y - 1901) div 100 + (y - 1601) div 400"

definition InLeapYear :: "int \<Rightarrow> bool" where
  "InLeapYear y = (y mod 4 = 0 \<and> (y mod 100 \<noteq> 0 \<or> y mod 400 = 0))"

text \<open>
  \<open>YearFromTime\<close>, on the day number: the largest year whose first day is not after the
  day \<open>d\<close>. The estimate from the mean length of a year is corrected by one year where
  needed.
\<close>

definition YearFromDay :: "int \<Rightarrow> int" where
  "YearFromDay d =
     (let y = 1970 + (d * 400) div 146097
      in if DayFromYear (y + 1) \<le> d then y + 1
         else if DayFromYear y \<le> d then y
         else y - 1)"

text \<open>Month (1 to 12) and day of the month (1 to 31) from the day within the year.\<close>

fun monthDay :: "int list \<Rightarrow> int \<Rightarrow> int \<Rightarrow> int \<times> int" where
  "monthDay [] m k = (m, k + 1)"
| "monthDay (l # ls) m k = (if k < l then (m, k + 1) else monthDay ls (m + 1) (k - l))"

definition monthLengths :: "int \<Rightarrow> int list" where
  "monthLengths y = [31, if InLeapYear y then 29 else 28, 31, 30, 31, 30, 31, 31, 30, 31, 30]"

definition digit :: "int \<Rightarrow> 16 word" where
  "digit n = of_nat (48 + nat (n mod 10))"

definition pad2 :: "int \<Rightarrow> ustring" where
  "pad2 n = [digit (n div 10), digit n]"

definition pad3 :: "int \<Rightarrow> ustring" where
  "pad3 n = [digit (n div 100), digit (n div 10), digit n]"

definition pad4 :: "int \<Rightarrow> ustring" where
  "pad4 n = [digit (n div 1000), digit (n div 100), digit (n div 10), digit n]"

definition pad6 :: "int \<Rightarrow> ustring" where
  "pad6 n = [digit (n div 100000), digit (n div 10000), digit (n div 1000),
             digit (n div 100), digit (n div 10), digit n]"

definition isoYear :: "int \<Rightarrow> ustring" where
  "isoYear y =
     (if 0 \<le> y \<and> y \<le> 9999 then pad4 y
      else if y < 0 then 0x2D # pad6 (- y)
      else 0x2B # pad6 y)"

definition toISOString :: "int \<Rightarrow> ustring" where
  "toISOString t =
     (let d = t div msPerDay;
          ms = t mod msPerDay;
          y = YearFromDay d;
          (m, dd) = monthDay (monthLengths y) 1 (d - DayFromYear y)
      in isoYear y @ [0x2D] @ pad2 m @ [0x2D] @ pad2 dd @ [0x54]
         @ pad2 (ms div 3600000) @ [0x3A] @ pad2 (ms div 60000 mod 60) @ [0x3A]
         @ pad2 (ms div 1000 mod 60) @ [0x2E] @ pad3 (ms mod 1000) @ [0x5A])"

text \<open>
  \<open>parseReleasedToISO\<close>. The engine's parser is the parameter \<open>parse\<close>; \<open>d\<close> is \<open>null\<close>
  for the empty string, and \<open>isNaN(+d)\<close> holds for the invalid date.
\<close>

definition parseReleasedToISO :: "(ustring \<Rightarrow> int option) \<Rightarrow> ustring \<Rightarrow> ustring option" where
  "parseReleasedToISO parse rel =
     (let d = (if rel \<noteq> [] then Some (parse rel) else None)
      in case d of
           None \<Rightarrow> None
         | Some None \<Rightarrow> None
         | Some (Some t) \<Rightarrow> Some (take 10 (toISOString t)))"

section \<open>handler\<close>

text \<open>
  The request as the handler reads it: \<open>req.json()\<close>, which rejects (\<open>None\<close>) on a body
  that is not JSON, and \<open>req.headers.get("x-notion-page-id")\<close>, which is \<open>null\<close>
  (\<open>None\<close>) when the header is absent.
\<close>

record request =
  json_body :: "json option"
  header_page_id :: "ustring option"

text \<open>
  The JSON text of the response, before \<open>JSON.stringify\<close>: \<open>{ok: true, title, updated}\<close>
  or \<open>{ok: false, error: e.message}\<close>.
\<close>

datatype body = Success (ok_title: ustring) (updated: "ustring list") | Failure (error_of: error)

record response =
  status :: nat
  payload :: body

definition pageid_missing :: ustring where
  \<comment> \<open>the message thrown when no page identifier is found\<close>
  "pageid_missing =
     ascii ''page_id '' @ [0xB204, 0xB77D] @ ascii '' (JSON body.page_id '' @ [0xB610, 0xB294]
     @ ascii '' X-Notion-Page-Id '' @ [0xD5E4, 0xB354, 0x0020, 0xC0AC, 0xC6A9, 0x0029]"

definition title_empty :: ustring where
  \<comment> \<open>the message thrown when the title is empty\<close>
  "title_empty =
     [0xB178, 0xC158, 0x0020, 0xD398, 0xC774, 0xC9C0, 0xC758, 0x0020, 0x0027, 0xC81C,
      0xBAA9, 0x0027, 0x0020, 0xC18D, 0xC131, 0xC774, 0x0020, 0xBE44, 0xC5B4, 0x0020,
      0xC788, 0xC74C]"

text \<open>The names of the properties written, in the order of the object literal.\<close>

definition name_director :: ustring where "name_director = [0xAC10, 0xB3C5]"
definition name_plot :: ustring where "name_plot = [0xC904, 0xAC70, 0xB9AC]"
definition name_features :: ustring where "name_features = [0xD2B9, 0xC9D5]"
definition name_genres :: ustring where "name_genres = [0xC7A5, 0xB974]"
definition name_released :: ustring where "name_released = [0xAC1C, 0xBD09, 0xC77C]"
definition name_crew :: ustring where
  "name_crew = [0xC81C, 0xC791, 0x002F, 0xC2A4, 0xD0DC, 0xD504]"
definition name_status :: ustring where "name_status = [0xC0C1, 0xD0DC]"

definition status_done :: ustring where
  \<comment> \<open>the name of the status option that is set\<close>
  "status_done = [0xC644, 0xB8CC]"

text \<open>
  \<open>body.page_id\<close>: reading a property of \<open>null\<close> raises; an object gives the value of
  its property, or \<open>undefined\<close> (\<open>None\<close>); every other value has no such property.
\<close>

fun page_id_of :: "json \<Rightarrow> error + json option" where
  "page_id_of JNull = Inl TypeErrorNull"
| "page_id_of (JObj kvs) = Inr (map_of kvs (ascii ''page_id''))"
| "page_id_of j = Inr None"

text \<open>
  Step 1 of the handler: the body, replaced by the empty object when \<open>req.json()\<close>
  rejects, then \<open>body.page_id || (header ?? "").trim()\<close>, then the test \<open>!pageId\<close>.
\<close>

definition resolvePageId :: "request \<Rightarrow> error + json" where
  "resolvePageId req =
     (let b = (case json_body req of None \<Rightarrow> JObj [] | Some j \<Rightarrow> j)
      in case page_id_of b of
           Inl err \<Rightarrow> Inl err
         | Inr field \<Rightarrow>
             let fromHeader = JStr (trim (orEmpty (header_page_id req)));
                 pageId = (case field of
                             None \<Rightarrow> fromHeader
                           | Some v \<Rightarrow> if truthy v then v else fromHeader)
             in if \<not> truthy pageId then Inl (Error pageid_missing) else Inr pageId)"

text \<open>Step 5: the object \<open>props\<close>, with the status property assigned after the literal.\<close>

definition buildProps :: "metadata \<Rightarrow> ustring \<Rightarrow> ustring \<Rightarrow> ustring option \<Rightarrow> props" where
  "buildProps dat summary features isoDate =
     [(name_director, Some (asRichText (director dat))),
      (name_plot, Some (asRichText summary)),
      (name_features, Some (asRichText features)),
      (name_genres, Some (asMultiSelect (genres dat))),
      (name_released, asDate isoDate),
      (name_crew, Some (asRichText ([0xAC01, 0xBCF8, 0x003A, 0x0020] @ writers dat
                                    @ [0x0020, 0x002F, 0x0020, 0xCD9C, 0xC5F0, 0x003A, 0x0020]
                                    @ actors dat)))]
     @ [(name_status, Some (StatusName status_done))]"

text \<open>The body of the outer \<open>try\<close>: the value returned, or the error caught.\<close>

definition handlerTry :: "env \<Rightarrow> request \<Rightarrow> (error + ustring \<times> ustring list) \<times> call list" where
  "handlerTry e req =
     (case resolvePageId req of
        Inl err \<Rightarrow> (Inl err, [])
      | Inr pageId \<Rightarrow>
          let calls1 = [PagesRetrieve pageId]
          in case pagesRetrieve e pageId of
               Inl err \<Rightarrow> (Inl err, calls1)
             | Inr pg \<Rightarrow>
                 let ttl = getTitle pg title_default
                 in if ttl = [] then (Inl (Error title_empty), calls1)
                    else case fetchFromOMDb e ttl calls1 of
                           (Inl err, calls2) \<Rightarrow> (Inl err, calls2)
                         | (Inr dat, calls2) \<Rightarrow>
                             let summary = summarizeKorean (plot dat);
                                 features = featuresFromData (director dat) (Some (genres dat));
                                 isoDate = parseReleasedToISO (dateParse e) (released dat);
                                 ps = buildProps dat summary features isoDate;
                                 calls3 = calls2 @ [PagesUpdate pageId ps]
                             in case pagesUpdate e pageId ps of
                                  Inl err \<Rightarrow> (Inl err, calls3)
                                | Inr u \<Rightarrow> (Inr (ttl, map fst ps), calls3))"

definition handler :: "env \<Rightarrow> request \<Rightarrow> response \<times> call list" where
  "handler e req =
     (case handlerTry e req of
        (Inr (ttl, names), calls) \<Rightarrow> (\<lparr> status = 200, payload = Success ttl names \<rparr>, calls)
      | (Inl err, calls) \<Rightarrow> (\<lparr> status = 500, payload = Failure err \<rparr>, calls))"

section \<open>A concrete run\<close>

text \<open>
  The run of the end-to-end example: the page \<open>abc123\<close> has the title \<open>Die Hard\<close>, the
  provider knows that title and answers with its not-found sentinel for any other, the
  update succeeds, and the engine reads \<open>20 Jun 1988\<close> as the midnight that begins
  that day in UTC (time value 582768000000).
\<close>

definition example_page :: page where
  "example_page =
     Page (Some [(title_default, Property (Some [Some (Fragment (Some (ascii ''Die Hard'')))]))])"

definition example_json :: omdb_json where
  "example_json =
     \<lparr> Response = Some (ascii ''True''), Error_field = None,
       Director = Some (ascii ''John McTiernan''), Plot = Some (ascii ''A cop. A tower.''),
       Genre = Some (ascii ''Action, Thriller''), Released = Some (ascii ''20 Jun 1988''),
       Writer = Some (ascii ''Roderick Thorp''), Actors = Some (ascii ''Bruce Willis'') \<rparr>"

definition not_found_json :: omdb_json where
  "not_found_json =
     \<lparr> Response = Some (ascii ''False''), Error_field = Some (ascii ''Movie not found!''),
       Director = None, Plot = None, Genre = None, Released = None,
       Writer = None, Actors = None \<rparr>"

definition example_url :: ustring where
  "example_url = ascii ''https://www.omdbapi.com/?apikey=k3y&t=Die%20Hard&plot=full''"

definition example_env :: env where
  "example_env =
     \<lparr> OMDB = Some (ascii ''k3y''),
       pagesRetrieve = (\<lambda>pageId. if pageId = JStr (ascii ''abc123'') then Inr example_page
                                  else Inl (Error (ascii ''Could not find page''))),
       fetchJson = (\<lambda>url. if url = example_url then Inr example_json else Inr not_found_json),
       pagesUpdate = (\<lambda>pageId ps. Inr ()),
       dateParse = (\<lambda>s. if s = ascii ''20 Jun 1988'' then Some 582768000000 else None) \<rparr>"

definition example_request :: request where
  "example_request =
     \<lparr> json_body = Some (JObj [(ascii ''page_id'', JStr (ascii ''abc123''))]),
       header_page_id = None \<rparr>"

text \<open>The same run with a provider that has no release date for the title.\<close>

definition undated_env :: env where
  "undated_env =
     example_env \<lparr> fetchJson := (\<lambda>url. Inr (example_json \<lparr> Released := Some (ascii ''N/A'') \<rparr>)) \<rparr>"

text \<open>A request whose body is the JSON text \<open>null\<close>, with the identifier in the header.\<close>

definition null_body_request :: request where
  "null_body_request = \<lparr> json_body = Some JNull, header_page_id = Some (ascii ''abc123'') \<rparr>"

section \<open>Facts about the string helpers\<close>

lemma endsWith_iff: "endsWith s suf \<longleftrightarrow> (\<exists>p. s = p @ suf)"
proof
  assume "endsWith s suf"
  then have "s = take (length s - length suf) s @ suf"
    by (metis append_take_drop_id endsWith_def)
  then show "\<exists>p. s = p @ suf" ..
next
  assume "\<exists>p. s = p @ suf"
  then show "endsWith s suf" by (auto simp: endsWith_def)
qed

lemma testEnding_iff:
  "testEnding out \<longleftrightarrow>
     (\<exists>p t. out = p @ hada @ t \<and> t \<in> set [[], [0x002E], [0x003F], [0x0021], [ellipsis]])"
proof
  assume "testEnding out"
  then consider (a) "endsWith out hada"
    | (b) "out \<noteq> []" "last out \<in> set [0x002E, 0x003F, 0x0021, ellipsis]"
          "endsWith (butlast out) hada"
    by (auto simp: testEnding_def)
  then show "\<exists>p t. out = p @ hada @ t \<and> t \<in> set [[], [0x002E], [0x003F], [0x0021], [ellipsis]]"
  proof cases
    case a
    then obtain p where "out = p @ hada @ []" by (auto simp: endsWith_iff)
    then show ?thesis by (intro exI[of _ p] exI[of _ "[]"]) simp
  next
    case b
    from b(3) obtain p where p: "butlast out = p @ hada" by (auto simp: endsWith_iff)
    from b(1) have "out = butlast out @ [last out]" by simp
    with p have "out = p @ hada @ [last out]" by simp
    with b(2) show ?thesis by (intro exI[of _ p] exI[of _ "[last out]"]) auto
  qed
next
  assume "\<exists>p t. out = p @ hada @ t \<and> t \<in> set [[], [0x002E], [0x003F], [0x0021], [ellipsis]]"
  then obtain p t where o: "out = p @ hada @ t"
    and t: "t \<in> set [[], [0x002E], [0x003F], [0x0021], [ellipsis]]" by blast
  show "testEnding out"
  proof (cases "t = []")
    case True
    with o show ?thesis by (simp add: testEnding_def endsWith_iff)
  next
    case False
    with t obtain c where c: "t = [c]" "c \<in> set [0x002E, 0x003F, 0x0021, ellipsis]" by auto
    with o have "out \<noteq> []" "last out = c" "butlast out = p @ hada"
      by (simp_all add: butlast_append hada_def)
    with c(2) show ?thesis by (simp add: testEnding_def endsWith_iff)
  qed
qed

lemma testEnding_ellipsis: "testEnding (k @ [ellipsis]) \<longleftrightarrow> (\<exists>p. k = p @ hada)"
  by (auto simp: testEnding_def endsWith_iff hada_def ellipsis_def)

text \<open>A string without white space and without the first syllable of the pattern is kept.\<close>

lemma collapseWhitespace_plain: "\<forall>c \<in> set s. \<not> isSpace c \<Longrightarrow> collapseWhitespace s = s"
  by (induction s) auto

lemma rewriteTerminators_plain: "\<forall>c \<in> set s. \<not> isSpace c \<Longrightarrow> rewriteTerminators s = s"
  by (induction s rule: rewriteTerminators.induct) auto

lemma replaceIpnida_plain: "0xC785 \<notin> set s \<Longrightarrow> replaceIpnida s = s"
  by (induction s rule: replaceIpnida.induct) (auto simp: ipnida_def)

lemma cleaned_Nil: "cleaned [] = []"
  by (simp add: cleaned_def)

lemma a_not_space: "\<not> isSpace 0x61"
  by (simp add: isSpace_def)

lemma cleaned_a: "cleaned (replicate n 0x61) = replicate n 0x61"
  by (simp add: cleaned_def collapseWhitespace_plain rewriteTerminators_plain
      replaceIpnida_plain a_not_space)

lemma replicate_a_no_marker: "\<not> (\<exists>p. replicate 356 (0x61::16 word) = p @ hada)"
proof
  assume "\<exists>p. replicate 356 (0x61::16 word) = p @ hada"
  then obtain p where "replicate 356 (0x61::16 word) = p @ hada" ..
  then have "last (replicate 356 (0x61::16 word)) = last (p @ hada)" by simp
  then show False by (simp add: hada_def)
qed

lemma insufficient_ending: "insufficient = take 25 insufficient @ hada @ [0x002E]"
  by (simp add: insufficient_def hada_def)

lemma ascii_Hi: "ascii ''Hi'' = [0x48, 0x69]"
  by (simp add: ascii_def)

lemma cleaned_Hi: "cleaned [0x48, 0x69] = [0x48, 0x69]"
  by (simp add: cleaned_def isSpace_def terminators_def)

section \<open>The empty plot\<close>

text \<open>
  Claim C9. For the empty plot, \<open>summarizeKorean\<close> returns exactly the fixed sentence of
  28 code units saying that the information is insufficient; nothing else is applied to it.
\<close>

theorem summarizeKorean_empty:
  "summarizeKorean [] =
     [0xC791, 0xD488, 0x0020, 0xC815, 0xBCF4, 0xAC00, 0x0020, 0xBD80, 0xC871, 0xD558,
      0xC5EC, 0x0020, 0xAC04, 0xB2E8, 0x0020, 0xC694, 0xC57D, 0xC744, 0x0020, 0xC81C,
      0xACF5, 0xD558, 0xC9C0, 0x0020, 0xBABB, 0xD558, 0xB2E4, 0x002E]"
  by (simp add: summarizeKorean_def insufficient_def)

section \<open>The ending of every summary\<close>

text \<open>
  Claim C7. For every plot, the string returned by \<open>summarizeKorean\<close> ends with the
  marker, followed by nothing or by exactly one of period, question mark, exclamation
  mark and ellipsis. For a plot that is not empty, the intermediate result \<open>out\<close> is
  returned as it is when it already ends that way, and with the marker and a period
  appended when it does not.
\<close>

theorem summarizeKorean_ends_with_marker:
  "(\<exists>p t. summarizeKorean txt = p @ hada @ t
           \<and> t \<in> set [[], [0x002E], [0x003F], [0x0021], [ellipsis]])
   \<and> (txt \<noteq> [] \<longrightarrow>
        summarizeKorean txt =
          (if \<exists>p t. truncated (cleaned txt) = p @ hada @ t
                    \<and> t \<in> set [[], [0x002E], [0x003F], [0x0021], [ellipsis]]
           then truncated (cleaned txt)
           else truncated (cleaned txt) @ hada @ [0x002E]))"
proof (intro conjI impI)
  show "\<exists>p t. summarizeKorean txt = p @ hada @ t
           \<and> t \<in> set [[], [0x002E], [0x003F], [0x0021], [ellipsis]]"
  proof (cases "txt = []")
    case True
    then have "summarizeKorean txt = take 25 insufficient @ hada @ [0x002E]"
      using insufficient_ending by (simp add: summarizeKorean_def)
    then show ?thesis by (intro exI[of _ "take 25 insufficient"] exI[of _ "[0x002E]"]) simp
  next
    case False
    show ?thesis
    proof (cases "testEnding (truncated (cleaned txt))")
      case True
      with False have "summarizeKorean txt = truncated (cleaned txt)"
        by (simp add: summarizeKorean_def)
      with True show ?thesis by (simp only: testEnding_iff)
    next
      case no: False
      with False have "summarizeKorean txt = truncated (cleaned txt) @ hada @ [0x002E]"
        by (simp add: summarizeKorean_def)
      then show ?thesis
        by (intro exI[of _ "truncated (cleaned txt)"] exI[of _ "[0x002E]"]) simp
    qed
  qed
next
  assume "txt \<noteq> []"
  then show "summarizeKorean txt =
          (if \<exists>p t. truncated (cleaned txt) = p @ hada @ t
                    \<and> t \<in> set [[], [0x002E], [0x003F], [0x0021], [ellipsis]]
           then truncated (cleaned txt)
           else truncated (cleaned txt) @ hada @ [0x002E])"
    unfolding testEnding_iff [symmetric] by (simp add: summarizeKorean_def Let_def)
qed

theorem summarizeKorean_ends_with_marker_witness:
  "ascii ''Hi'' \<noteq> [] \<and> summarizeKorean (ascii ''Hi'') = ascii ''Hi'' @ hada @ [0x002E]"
proof -
  have ne: "ascii ''Hi'' \<noteq> []" by (simp add: ascii_def)
  have out: "truncated (cleaned (ascii ''Hi'')) = [0x48, 0x69]"
    by (simp add: ascii_Hi cleaned_Hi truncated_def)
  have no: "\<not> (\<exists>p t. [0x48, 0x69 :: 16 word] = p @ hada @ t
                \<and> t \<in> set [[], [0x002E], [0x003F], [0x0021], [ellipsis]])"
    unfolding testEnding_iff [symmetric]
    by (simp add: testEnding_def endsWith_def hada_def)
  from summarizeKorean_ends_with_marker [of "ascii ''Hi''"] ne
  have "summarizeKorean (ascii ''Hi'') =
          (if \<exists>p t. truncated (cleaned (ascii ''Hi'')) = p @ hada @ t
                    \<and> t \<in> set [[], [0x002E], [0x003F], [0x0021], [ellipsis]]
           then truncated (cleaned (ascii ''Hi''))
           else truncated (cleaned (ascii ''Hi'')) @ hada @ [0x002E])"
    by blast
  with out no have "summarizeKorean (ascii ''Hi'') = [0x48, 0x69] @ hada @ [0x002E]"
    by (simp only: if_False)
  with ne show ?thesis by (simp add: ascii_Hi)
qed

section \<open>Plots longer than the budget\<close>

text \<open>
  Claim C1, as stated: whenever the plot with its white space collapsed and its
  terminators rewritten is longer than 360, the summary has length 357 and ends with the
  ellipsis. It fails for 361 letters \<open>a\<close>: the marker and a period are appended after the
  ellipsis, and the summary has length 360.
\<close>

theorem summarizeKorean_long_counterexample:
  "360 < length (rewriteTerminators (collapseWhitespace (replicate 361 0x61)))
   \<and> length (summarizeKorean (replicate 361 0x61)) = 360
   \<and> last (summarizeKorean (replicate 361 0x61)) \<noteq> ellipsis"
proof -
  have two: "rewriteTerminators (collapseWhitespace (replicate 361 0x61)) = replicate 361 0x61"
    by (simp add: collapseWhitespace_plain rewriteTerminators_plain a_not_space)
  have no: "\<not> testEnding (replicate 356 0x61 @ [ellipsis])"
    unfolding testEnding_ellipsis by (rule replicate_a_no_marker)
  have res: "summarizeKorean (replicate 361 0x61)
               = replicate 356 0x61 @ [ellipsis] @ hada @ [0x002E]"
    using no by (simp add: summarizeKorean_def cleaned_a truncated_def)
  show ?thesis
    by (simp add: two res hada_def ellipsis_def)
qed

text \<open>
  Claim C1, amended. Whenever the cleaned plot (white space collapsed, terminators
  rewritten and the three-syllable ending replaced) is longer than 360, the summary is
  the first 356 code units of the cleaned plot followed by the ellipsis, and then, unless
  those 356 code units end with the marker, by the marker and a period. Its length is 357
  in the first case, where it ends with the ellipsis, and 360 in the second.
\<close>

theorem summarizeKorean_long:
  assumes "360 < length (cleaned txt)"
  shows "summarizeKorean txt =
           take 356 (cleaned txt) @ [ellipsis]
           @ (if \<exists>p. take 356 (cleaned txt) = p @ hada then [] else hada @ [0x002E])
         \<and> length (summarizeKorean txt) =
           (if \<exists>p. take 356 (cleaned txt) = p @ hada then 357 else 360)"
proof -
  from assms have ne: "txt \<noteq> []" using cleaned_Nil by auto
  from assms have tr: "truncated (cleaned txt) = take 356 (cleaned txt) @ [ellipsis]"
    by (simp add: truncated_def)
  have eq: "summarizeKorean txt =
           take 356 (cleaned txt) @ [ellipsis]
           @ (if \<exists>p. take 356 (cleaned txt) = p @ hada then [] else hada @ [0x002E])"
    using ne by (simp add: summarizeKorean_def tr testEnding_ellipsis del: take_eq_Nil)
  from assms have len: "length (take 356 (cleaned txt)) = 356" by simp
  have "length (summarizeKorean txt) =
           (if \<exists>p. take 356 (cleaned txt) = p @ hada then 357 else 360)"
    by (subst eq) (use len in \<open>simp add: hada_def\<close>)
  with eq show ?thesis ..
qed

theorem summarizeKorean_long_witness:
  "360 < length (cleaned (replicate 361 0x61))
   \<and> summarizeKorean (replicate 361 0x61) = replicate 356 0x61 @ [ellipsis] @ hada @ [0x002E]"
proof -
  have h: "360 < length (cleaned (replicate 361 0x61))" by (simp add: cleaned_a)
  have no: "\<not> (\<exists>p. take 356 (cleaned (replicate 361 0x61)) = p @ hada)"
    using replicate_a_no_marker by (simp add: cleaned_a)
  from summarizeKorean_long [OF h] no
  have "summarizeKorean (replicate 361 0x61)
          = take 356 (cleaned (replicate 361 0x61)) @ [ellipsis] @ hada @ [0x002E]"
    by simp
  with h show ?thesis by (simp add: cleaned_a)
qed

section \<open>The third cleaning step\<close>















section \<open>The feature string\<close>

text \<open>
  Claim C8. The result of \<open>featuresFromData\<close>, written out code unit by code unit: the
  director clause followed by space, slash, space when the director is not empty; then
  the genre clause (the label and the first three genres at most, separated by comma and
  space) followed by space, slash, space when there is at least one genre; then the fixed
  clause, always. So the result always ends with the fixed clause, and for an empty
  director and no genre it is the fixed clause alone, with no separator. With the
  director \<open>X\<close> and the genres \<open>A\<close>, \<open>B\<close>, \<open>C\<close>, \<open>D\<close> the three clauses are all
  present and the fourth genre is dropped.
\<close>

theorem featuresFromData_clauses:
  "featuresFromData d gs =
     (if d \<noteq> [] then [0xC5F0, 0xCD9C, 0x003A, 0x0020] @ d @ [0x0020, 0x002F, 0x0020] else [])
     @ (case gs of
          Some [g1] \<Rightarrow>
            [0xC7A5, 0xB974, 0x0020, 0xACB0, 0xD569, 0x003A, 0x0020] @ g1
            @ [0x0020, 0x002F, 0x0020]
        | Some [g1, g2] \<Rightarrow>
            [0xC7A5, 0xB974, 0x0020, 0xACB0, 0xD569, 0x003A, 0x0020] @ g1
            @ [0x002C, 0x0020] @ g2 @ [0x0020, 0x002F, 0x0020]
        | Some (g1 # g2 # g3 # r) \<Rightarrow>
            [0xC7A5, 0xB974, 0x0020, 0xACB0, 0xD569, 0x003A, 0x0020] @ g1
            @ [0x002C, 0x0020] @ g2 @ [0x002C, 0x0020] @ g3 @ [0x0020, 0x002F, 0x0020]
        | _ \<Rightarrow> [])
     @ [0xB9AC, 0xB4EC, 0xAC10, 0x0020, 0xC788, 0xB294, 0x0020, 0xC804, 0xAC1C]
   \<and> (\<exists>p. featuresFromData d gs = p @ fixed_clause)
   \<and> featuresFromData [] (Some []) =
       [0xB9AC, 0xB4EC, 0xAC10, 0x0020, 0xC788, 0xB294, 0x0020, 0xC804, 0xAC1C]
   \<and> featuresFromData [] None = fixed_clause
   \<and> featuresFromData (ascii ''X'') (Some [ascii ''A'', ascii ''B'', ascii ''C'', ascii ''D''])
       = [0xC5F0, 0xCD9C] @ ascii '': X / '' @ [0xC7A5, 0xB974, 0x0020, 0xACB0, 0xD569]
         @ ascii '': A, B, C / ''
         @ [0xB9AC, 0xB4EC, 0xAC10, 0x0020, 0xC788, 0xB294, 0x0020, 0xC804, 0xAC1C]"
proof (intro conjI)
  show eq: "featuresFromData d gs =
     (if d \<noteq> [] then [0xC5F0, 0xCD9C, 0x003A, 0x0020] @ d @ [0x0020, 0x002F, 0x0020] else [])
     @ (case gs of
          Some [g1] \<Rightarrow>
            [0xC7A5, 0xB974, 0x0020, 0xACB0, 0xD569, 0x003A, 0x0020] @ g1
            @ [0x0020, 0x002F, 0x0020]
        | Some [g1, g2] \<Rightarrow>
            [0xC7A5, 0xB974, 0x0020, 0xACB0, 0xD569, 0x003A, 0x0020] @ g1
            @ [0x002C, 0x0020] @ g2 @ [0x0020, 0x002F, 0x0020]
        | Some (g1 # g2 # g3 # r) \<Rightarrow>
            [0xC7A5, 0xB974, 0x0020, 0xACB0, 0xD569, 0x003A, 0x0020] @ g1
            @ [0x002C, 0x0020] @ g2 @ [0x002C, 0x0020] @ g3 @ [0x0020, 0x002F, 0x0020]
        | _ \<Rightarrow> [])
     @ [0xB9AC, 0xB4EC, 0xAC10, 0x0020, 0xC788, 0xB294, 0x0020, 0xC804, 0xAC1C]"
    by (simp add: featuresFromData_def director_prefix_def genre_prefix_def fixed_clause_def
        ascii_def split: option.splits list.splits)
  show "\<exists>p. featuresFromData d gs = p @ fixed_clause"
    unfolding eq fixed_clause_def append_assoc [symmetric] by (rule exI) (rule refl)
  show "featuresFromData [] (Some []) =
       [0xB9AC, 0xB4EC, 0xAC10, 0x0020, 0xC788, 0xB294, 0x0020, 0xC804, 0xAC1C]"
    by (simp add: featuresFromData_def fixed_clause_def)
  show "featuresFromData [] None = fixed_clause"
    by (simp add: featuresFromData_def)
  show "featuresFromData (ascii ''X'') (Some [ascii ''A'', ascii ''B'', ascii ''C'', ascii ''D''])
       = [0xC5F0, 0xCD9C] @ ascii '': X / '' @ [0xC7A5, 0xB974, 0x0020, 0xACB0, 0xD569]
         @ ascii '': A, B, C / ''
         @ [0xB9AC, 0xB4EC, 0xAC10, 0x0020, 0xC788, 0xB294, 0x0020, 0xC804, 0xAC1C]"
    by (simp add: featuresFromData_def director_prefix_def genre_prefix_def fixed_clause_def
        ascii_def)
qed

section \<open>The title of the page\<close>

lemma trim_Die_Hard: "trim (ascii '' Die Hard '') = ascii ''Die Hard''"
  by (simp add: trim_def ascii_def isSpace_def)

text \<open>
  What \<open>getTitle\<close> computes. For a page whose title property holds the fragments
  \<open>ts\<close>, the result is the text of the first fragment, trimmed, when that text is not
  empty; the concatenation of the texts of all the fragments, trimmed, is reached only
  otherwise.
\<close>

lemma getTitle_first_or_joined:
  assumes "properties pg = Some ps" and "map_of ps name = Some (Property (Some ts))"
  shows "getTitle pg name =
           trim (case ts of
                   [] \<Rightarrow> []
                 | t # r \<Rightarrow> if fragmentText t \<noteq> [] then fragmentText t
                            else concat (map fragmentText (t # r)))
         \<and> ((case ts of [] \<Rightarrow> True
              | t # r \<Rightarrow> fragmentText t = [] \<or> concat (map fragmentText r) = [])
             \<longrightarrow> getTitle pg name = trim (concat (map fragmentText ts)))"
proof -
  have eq: "getTitle pg name =
           trim (case ts of
                   [] \<Rightarrow> []
                 | t # r \<Rightarrow> if fragmentText t \<noteq> [] then fragmentText t
                            else concat (map fragmentText (t # r)))"
  proof -
    have "getTitle pg name =
            trim (let F = (case ts of [] \<Rightarrow> [] | t # r \<Rightarrow> fragmentText t);
                      J = concat (map fragmentText ts)
                  in if F \<noteq> [] then F else if J \<noteq> [] then J else [])"
      using assms
      by (cases ts) (simp_all add: getTitle_def fragmentText_def orEmpty_def Let_def)
    also have "(let F = (case ts of [] \<Rightarrow> [] | t # r \<Rightarrow> fragmentText t);
                      J = concat (map fragmentText ts)
                  in if F \<noteq> [] then F else if J \<noteq> [] then J else [])
               = (case ts of
                   [] \<Rightarrow> []
                 | t # r \<Rightarrow> if fragmentText t \<noteq> [] then fragmentText t
                            else concat (map fragmentText (t # r)))"
      by (cases ts) (simp_all add: Let_def)
    finally show ?thesis .
  qed
  show ?thesis
    unfolding eq by (cases ts) (auto simp del: concat_eq_Nil_conv)
qed

lemma getTitle_first_or_joined_example:
  "properties (Page (Some [(title_default,
       Property (Some [Some (Fragment None), Some (Fragment (Some (ascii '' Die Hard '')))]))]))
     = Some [(title_default,
       Property (Some [Some (Fragment None), Some (Fragment (Some (ascii '' Die Hard '')))]))]
   \<and> map_of [(title_default,
       Property (Some [Some (Fragment None), Some (Fragment (Some (ascii '' Die Hard '')))]))]
        title_default
     = Some (Property (Some [Some (Fragment None), Some (Fragment (Some (ascii '' Die Hard '')))]))
   \<and> getTitle (Page (Some [(title_default,
       Property (Some [Some (Fragment None), Some (Fragment (Some (ascii '' Die Hard '')))]))]))
       title_default = ascii ''Die Hard''"
proof -
  let ?ts = "[Some (Fragment None), Some (Fragment (Some (ascii '' Die Hard '')))]"
  let ?ps = "[(title_default, Property (Some ?ts))]"
  have 1: "properties (Page (Some ?ps)) = Some ?ps" by simp
  have 2: "map_of ?ps title_default = Some (Property (Some ?ts))" by simp
  have 3: "fragmentText (Some (Fragment None)) = []"
    by (simp add: fragmentText_def orEmpty_def)
  have 4: "concat (map fragmentText ?ts) = ascii '' Die Hard ''"
    by (simp add: fragmentText_def orEmpty_def)
  from getTitle_first_or_joined [OF 1 2] 3
  have "getTitle (Page (Some ?ps)) title_default = trim (concat (map fragmentText ?ts))"
    by simp
  then have "getTitle (Page (Some ?ps)) title_default = ascii ''Die Hard''"
    by (simp only: 4 trim_Die_Hard)
  with 1 2 show ?thesis by simp
qed

text \<open>
  Claim C2: the result is the trimmed concatenation of the fragments, however the title
  is split. The expression of the source carries the concatenation of all the fragments,
  but only as the alternative of the first fragment, which wins whenever it has text. For
  the title split into the two fragments \<open>Die \<close> and \<open>Hard\<close> the result is
  \<open>Die\<close>, not \<open>Die Hard\<close>; the same two fragments after an empty first fragment
  take the other path and give \<open>Die Hard\<close>.
\<close>

theorem getTitle_split_title:
  "getTitle (Page (Some [(title_default,
       Property (Some [Some (Fragment (Some (ascii ''Die ''))),
                       Some (Fragment (Some (ascii ''Hard'')))]))])) title_default
     = ascii ''Die''
   \<and> trim (concat [ascii ''Die '', ascii ''Hard'']) = ascii ''Die Hard''
   \<and> getTitle (Page (Some [(title_default,
       Property (Some [Some (Fragment (Some [])),
                       Some (Fragment (Some (ascii ''Die ''))),
                       Some (Fragment (Some (ascii ''Hard'')))]))])) title_default
     = ascii ''Die Hard''"
  by (simp add: getTitle_def title_default_def fragmentText_def orEmpty_def trim_def
      ascii_def isSpace_def)

section \<open>The metadata fetcher\<close>

lemma splitComma_not_Nil: "splitComma s \<noteq> []"
  by (induction s) (auto split: list.splits)

lemma join_Cons: "ps \<noteq> [] \<Longrightarrow> join sep (p # ps) = p @ sep @ join sep ps"
  by (cases ps) auto

lemma join_splitComma: "join [0x2C] (splitComma s) = s"
proof (induction s)
  case Nil
  show ?case by simp
next
  case (Cons c s)
  obtain p ps where sp: "splitComma s = p # ps"
    using splitComma_not_Nil by (cases "splitComma s") auto
  show ?case
  proof (cases "c = 0x2C")
    case True
    with Cons show ?thesis by (simp add: join_Cons splitComma_not_Nil)
  next
    case False
    with Cons sp show ?thesis by (cases ps) auto
  qed
qed

lemma splitComma_no_comma: "p \<in> set (splitComma s) \<Longrightarrow> 0x2C \<notin> set p"
  by (induction s arbitrary: p) (auto split: if_splits list.splits)

lemma splitComma_Action_Thriller:
  "filter (\<lambda>g. g \<noteq> []) (map trim (splitComma (ascii ''Action, Thriller'')))
     = [ascii ''Action'', ascii ''Thriller'']"
  by (simp add: ascii_def trim_def isSpace_def)


lemma encode_Die_Hard: "encodeURIComponent (ascii ''Die Hard'') = Inr (ascii ''Die%20Hard'')"
  by (simp add: ascii_def unreserved_def isHigh_def isLow_def escape_def utf8_def percent_def
      hexDigit_def)

lemma encode_Nope: "encodeURIComponent (ascii ''Nope'') = Inr (ascii ''Nope'')"
  by (simp add: ascii_def unreserved_def)

text \<open>
  Claim C5. When the key is absent (or empty), \<open>fetchFromOMDb\<close> fails with the
  missing-key error and issues no request: the list of outbound calls is unchanged. When
  the key is present and the provider answers, one GET has been issued, and: if the
  answer carries the sentinel \<open>False\<close> in \<open>Response\<close>, the failure carries the
  provider's message when there is one and \<open>OMDb not found\<close> otherwise; if not, the six
  fields are returned, an absent field as the empty string, and the genres are the pieces
  of the genre field between the commas, each trimmed, the empty ones dropped, in order.
\<close>

theorem fetchFromOMDb_outcomes:
  "((OMDB e = None \<or> OMDB e = Some []) \<longrightarrow>
      fetchFromOMDb e ttl calls = (Inl (Error key_missing), calls))
   \<and> (OMDB e = Some k \<and> k \<noteq> [] \<and> encodeURIComponent ttl = Inr enc
       \<and> fetchJson e (ascii ''https://www.omdbapi.com/?apikey='' @ k @ ascii ''&t='' @ enc
                       @ ascii ''&plot=full'') = Inr js \<longrightarrow>
        snd (fetchFromOMDb e ttl calls) =
          calls @ [HttpGet (ascii ''https://www.omdbapi.com/?apikey='' @ k @ ascii ''&t='' @ enc
                            @ ascii ''&plot=full'')]
        \<and> (Response js = Some (ascii ''False'') \<longrightarrow>
             fst (fetchFromOMDb e ttl calls) =
               Inl (Error (case Error_field js of
                             None \<Rightarrow> ascii ''OMDb not found''
                           | Some m \<Rightarrow> if m \<noteq> [] then m else ascii ''OMDb not found'')))
        \<and> (Response js \<noteq> Some (ascii ''False'') \<longrightarrow>
             (\<exists>pieces. join [0x2C] pieces = orEmpty (Genre js)
                \<and> (\<forall>p \<in> set pieces. 0x2C \<notin> set p)
                \<and> fst (fetchFromOMDb e ttl calls) =
                    Inr \<lparr> director = orEmpty (Director js), plot = orEmpty (Plot js),
                          genres = filter (\<lambda>g. g \<noteq> []) (map trim pieces),
                          released = orEmpty (Released js), writers = orEmpty (Writer js),
                          actors = orEmpty (Actors js) \<rparr>)))
   \<and> orEmpty None = [] \<and> orEmpty (Some s) = s"
proof (intro conjI impI)
  assume "OMDB e = None \<or> OMDB e = Some []"
  then show "fetchFromOMDb e ttl calls = (Inl (Error key_missing), calls)"
    by (auto simp: fetchFromOMDb_def orEmpty_def)
next
  assume h: "OMDB e = Some k \<and> k \<noteq> [] \<and> encodeURIComponent ttl = Inr enc
       \<and> fetchJson e (ascii ''https://www.omdbapi.com/?apikey='' @ k @ ascii ''&t='' @ enc
                       @ ascii ''&plot=full'') = Inr js"
  then show "snd (fetchFromOMDb e ttl calls) =
          calls @ [HttpGet (ascii ''https://www.omdbapi.com/?apikey='' @ k @ ascii ''&t='' @ enc
                            @ ascii ''&plot=full'')]"
    by (simp add: fetchFromOMDb_def orEmpty_def Let_def)
next
  assume h: "OMDB e = Some k \<and> k \<noteq> [] \<and> encodeURIComponent ttl = Inr enc
       \<and> fetchJson e (ascii ''https://www.omdbapi.com/?apikey='' @ k @ ascii ''&t='' @ enc
                       @ ascii ''&plot=full'') = Inr js"
    and "Response js = Some (ascii ''False'')"
  then show "fst (fetchFromOMDb e ttl calls) =
               Inl (Error (case Error_field js of
                             None \<Rightarrow> ascii ''OMDb not found''
                           | Some m \<Rightarrow> if m \<noteq> [] then m else ascii ''OMDb not found''))"
    by (simp add: fetchFromOMDb_def orEmpty_def Let_def split: option.splits)
next
  assume h: "OMDB e = Some k \<and> k \<noteq> [] \<and> encodeURIComponent ttl = Inr enc
       \<and> fetchJson e (ascii ''https://www.omdbapi.com/?apikey='' @ k @ ascii ''&t='' @ enc
                       @ ascii ''&plot=full'') = Inr js"
    and "Response js \<noteq> Some (ascii ''False'')"
  then have "fst (fetchFromOMDb e ttl calls) =
                    Inr \<lparr> director = orEmpty (Director js), plot = orEmpty (Plot js),
                          genres = filter (\<lambda>g. g \<noteq> [])
                                     (map trim (splitComma (orEmpty (Genre js)))),
                          released = orEmpty (Released js), writers = orEmpty (Writer js),
                          actors = orEmpty (Actors js) \<rparr>"
    by (simp add: fetchFromOMDb_def Let_def) (simp add: orEmpty_def)
  then show "\<exists>pieces. join [0x2C] pieces = orEmpty (Genre js)
                \<and> (\<forall>p \<in> set pieces. 0x2C \<notin> set p)
                \<and> fst (fetchFromOMDb e ttl calls) =
                    Inr \<lparr> director = orEmpty (Director js), plot = orEmpty (Plot js),
                          genres = filter (\<lambda>g. g \<noteq> []) (map trim pieces),
                          released = orEmpty (Released js), writers = orEmpty (Writer js),
                          actors = orEmpty (Actors js) \<rparr>"
    using join_splitComma splitComma_no_comma
    by (intro exI[of _ "splitComma (orEmpty (Genre js))"]) blast
next
  show "orEmpty None = []" by (simp add: orEmpty_def)
next
  show "orEmpty (Some s) = s" by (simp add: orEmpty_def)
qed


lemma example_url_eq:
  "ascii ''https://www.omdbapi.com/?apikey='' @ ascii ''k3y'' @ ascii ''&t=''
     @ ascii ''Die%20Hard'' @ ascii ''&plot=full'' = example_url"
  by (simp add: example_url_def ascii_def)

lemma nope_url_neq:
  "ascii ''https://www.omdbapi.com/?apikey='' @ ascii ''k3y'' @ ascii ''&t=''
     @ ascii ''Nope'' @ ascii ''&plot=full'' \<noteq> example_url"
  by (simp add: example_url_def ascii_def)

lemma ascii_not_Nil: "ascii (c # cs) \<noteq> []"
  by (simp add: ascii_def)

theorem fetchFromOMDb_outcomes_witness:
  "fetchFromOMDb (example_env \<lparr> OMDB := None \<rparr>) (ascii ''Die Hard'') []
     = (Inl (Error key_missing), [])
   \<and> snd (fetchFromOMDb example_env (ascii ''Die Hard'') []) = [HttpGet example_url]
   \<and> fst (fetchFromOMDb example_env (ascii ''Nope'') [])
       = Inl (Error (ascii ''Movie not found!''))
   \<and> map_sum id genres (fst (fetchFromOMDb example_env (ascii ''Die Hard'') []))
       = Inr [ascii ''Action'', ascii ''Thriller'']
   \<and> map_sum id director (fst (fetchFromOMDb example_env (ascii ''Die Hard'') []))
       = Inr (ascii ''John McTiernan'')"
proof -
  have 1: "fetchFromOMDb (example_env \<lparr> OMDB := None \<rparr>) (ascii ''Die Hard'') []
             = (Inl (Error key_missing), [])"
    using fetchFromOMDb_outcomes [where e = "example_env \<lparr> OMDB := None \<rparr>"
        and ttl = "ascii ''Die Hard''" and calls = "[]"]
    by simp
  have k: "OMDB example_env = Some (ascii ''k3y'')" "ascii ''k3y'' \<noteq> []"
    by (simp_all add: example_env_def ascii_not_Nil)
  have f: "fetchJson example_env
             (ascii ''https://www.omdbapi.com/?apikey='' @ ascii ''k3y'' @ ascii ''&t=''
              @ ascii ''Die%20Hard'' @ ascii ''&plot=full'') = Inr example_json"
    unfolding example_url_eq by (simp add: example_env_def)
  have r: "Response example_json \<noteq> Some (ascii ''False'')"
    by (simp add: example_json_def ascii_def)
  note A = fetchFromOMDb_outcomes [where e = example_env and k = "ascii ''k3y''"
      and ttl = "ascii ''Die Hard''" and enc = "ascii ''Die%20Hard''" and js = example_json
      and calls = "[]"]
  from A k f encode_Die_Hard
  have 2: "snd (fetchFromOMDb example_env (ascii ''Die Hard'') []) = [HttpGet example_url]"
    unfolding example_url_eq by simp
  from A k f r encode_Die_Hard
  have "\<exists>pieces. join [0x2C] pieces = orEmpty (Genre example_json)
                \<and> (\<forall>p \<in> set pieces. 0x2C \<notin> set p)
                \<and> fst (fetchFromOMDb example_env (ascii ''Die Hard'') []) =
                    Inr \<lparr> director = orEmpty (Director example_json),
                          plot = orEmpty (Plot example_json),
                          genres = filter (\<lambda>g. g \<noteq> []) (map trim pieces),
                          released = orEmpty (Released example_json),
                          writers = orEmpty (Writer example_json),
                          actors = orEmpty (Actors example_json) \<rparr>"
    by blast
  then obtain md where md: "fst (fetchFromOMDb example_env (ascii ''Die Hard'') []) = Inr md"
    "director md = orEmpty (Director example_json)"
    by force
  have 4: "map_sum id genres (fst (fetchFromOMDb example_env (ascii ''Die Hard'') []))
       = Inr [ascii ''Action'', ascii ''Thriller'']"
    by (simp add: fetchFromOMDb_def k encode_Die_Hard example_url_eq orEmpty_def Let_def
        splitComma_Action_Thriller)
       (simp add: example_env_def example_json_def orEmpty_def ascii_def trim_def isSpace_def)
  have g: "fetchJson example_env
             (ascii ''https://www.omdbapi.com/?apikey='' @ ascii ''k3y'' @ ascii ''&t=''
              @ ascii ''Nope'' @ ascii ''&plot=full'') = Inr not_found_json"
    using nope_url_neq by (simp add: example_env_def)
  have s: "Response not_found_json = Some (ascii ''False'')"
    "Error_field not_found_json = Some (ascii ''Movie not found!'')"
    by (simp_all add: not_found_json_def)
  from fetchFromOMDb_outcomes [where e = example_env and k = "ascii ''k3y''"
      and ttl = "ascii ''Nope''" and enc = "ascii ''Nope''" and js = not_found_json
      and calls = "[]"] k g s encode_Nope
  have 3: "fst (fetchFromOMDb example_env (ascii ''Nope'') [])
       = Inl (Error (ascii ''Movie not found!''))"
    by (simp add: ascii_not_Nil)
  from md have 5: "map_sum id director (fst (fetchFromOMDb example_env (ascii ''Die Hard'') []))
       = Inr (ascii ''John McTiernan'')"
    by (simp add: example_json_def orEmpty_def)
  from 1 2 3 4 5 show ?thesis by blast
qed

section \<open>The release date\<close>

lemma div_bounds:
  fixes a b :: int
  assumes "0 < b"
  shows "b * (a div b) \<le> a" and "a < b * (a div b) + b"
  using pos_mod_sign [OF assms, of a] pos_mod_bound [OF assms, of a] mult_div_mod_eq [of b a]
  by linarith+

lemma DayFromYear_estimate:
  fixes y :: int
  shows "400 * DayFromYear y \<le> 146097 * y - 287810490"
    and "146097 * y - 287811700 \<le> 400 * DayFromYear y"
proof -
  define a where "a = (y - 1969) div 4"
  define b where "b = (y - 1901) div 100"
  define c where "c = (y - 1601) div 400"
  have A: "4 * a \<le> y - 1969" "y - 1969 < 4 * a + 4"
    unfolding a_def by (rule div_bounds, simp)+
  have B: "100 * b \<le> y - 1901" "y - 1901 < 100 * b + 100"
    unfolding b_def by (rule div_bounds, simp)+
  have C: "400 * c \<le> y - 1601" "y - 1601 < 400 * c + 400"
    unfolding c_def by (rule div_bounds, simp)+
  have "DayFromYear y = 365 * (y - 1970) + a - b + c"
    by (simp add: DayFromYear_def a_def b_def c_def)
  then have D: "400 * DayFromYear y = 146000 * y - 287620000 + 400 * a - 400 * b + 400 * c"
    by simp
  show "400 * DayFromYear y \<le> 146097 * y - 287810490"
    unfolding D using A B C by linarith
  show "146097 * y - 287811700 \<le> 400 * DayFromYear y"
    unfolding D using A B C by linarith
qed

text \<open>
  The year computed from a day number is the year that contains the day: its first day
  is not after the day, and the first day of the next year is.
\<close>

lemma YearFromDay_correct:
  "DayFromYear (YearFromDay d) \<le> d \<and> d < DayFromYear (YearFromDay d + 1)"
proof -
  define q where "q = (d * 400) div 146097"
  define y where "y = 1970 + q"
  have "146097 * q \<le> d * 400" "d * 400 < 146097 * q + 146097"
    unfolding q_def by (rule div_bounds, simp)+
  then have Q: "146097 * y - 287811090 \<le> 400 * d" "400 * d < 146097 * y - 287664993"
    by (simp_all add: y_def algebra_simps)
  define L where "L = DayFromYear (y - 1)"
  define H where "H = DayFromYear (y + 1 + 1)"
  have "400 * L \<le> 146097 * (y - 1) - 287810490"
    unfolding L_def by (rule DayFromYear_estimate)
  then have "400 * L \<le> 146097 * y - 287956587" by (simp add: algebra_simps)
  with Q have lo: "L \<le> d" by linarith
  have "146097 * (y + 1 + 1) - 287811700 \<le> 400 * H"
    unfolding H_def by (rule DayFromYear_estimate)
  then have "146097 * y - 287519506 \<le> 400 * H" by (simp add: algebra_simps)
  with Q have hi: "d < H" by linarith
  have yd: "1970 + d * 400 div 146097 = y" by (simp add: y_def q_def)
  show ?thesis
    using lo hi unfolding L_def H_def
    by (auto simp: YearFromDay_def Let_def yd)
qed

lemma length_isoYear: "length (isoYear y) = (if 0 \<le> y \<and> y \<le> 9999 then 4 else 7)"
  by (simp add: isoYear_def pad4_def pad6_def)

lemma take_10_date:
  "take 10 (isoYear y @ [0x2D] @ pad2 m @ [0x2D] @ pad2 dd @ rest)
     = take 10 (isoYear y @ [0x2D] @ pad2 m @ [0x2D] @ pad2 dd)"
  by (simp add: length_isoYear pad2_def)

lemma take_10_toISOString:
  "take 10 (toISOString t) =
     (let d = t div msPerDay;
          y = YearFromDay d;
          (m, dd) = monthDay (monthLengths y) 1 (d - DayFromYear y)
      in take 10 (isoYear y @ [0x2D] @ pad2 m @ [0x2D] @ pad2 dd))"
  unfolding toISOString_def Let_def
  by (simp only: take_10_date split: prod.splits) simp

lemma day_6745:
  assumes "582768000000 \<le> t" and "t < 582854400000"
  shows "t div msPerDay = 6745"
proof -
  define r where "r = t - 582768000000"
  have t: "t = r + 6745 * 86400000" by (simp add: r_def)
  have "(r + 6745 * 86400000) div 86400000 = 6745 + r div 86400000"
    by (rule div_mult_self1) simp
  moreover from assms have "r div 86400000 = 0"
    by (simp add: r_def div_pos_pos_trivial)
  ultimately show ?thesis by (simp add: t msPerDay_def)
qed

lemma DayFromYear_1988: "DayFromYear 1988 = 6574"
  by (simp add: DayFromYear_def)

lemma DayFromYear_1989: "DayFromYear 1989 = 6940"
  by (simp add: DayFromYear_def)

lemma YearFromDay_6745: "YearFromDay 6745 = 1988"
  by (simp add: YearFromDay_def DayFromYear_1988 DayFromYear_1989)

lemma YearFromDay_6744: "YearFromDay 6744 = 1988"
  by (simp add: YearFromDay_def DayFromYear_1988 DayFromYear_1989)

lemma InLeapYear_1988: "InLeapYear 1988"
  by (simp add: InLeapYear_def)

lemma isoYear_1988: "isoYear 1988 = ascii ''1988''"
  by (simp add: isoYear_def pad4_def digit_def ascii_def)

lemma pad2_values: "pad2 6 = ascii ''06''" "pad2 20 = ascii ''20''" "pad2 19 = ascii ''19''"
  by (simp_all add: pad2_def digit_def ascii_def)

lemma date_6745:
  "(let d = 6745; y = YearFromDay d;
        (m, dd) = monthDay (monthLengths y) 1 (d - DayFromYear y)
    in take 10 (isoYear y @ [0x2D] @ pad2 m @ [0x2D] @ pad2 dd)) = ascii ''1988-06-20''"
proof -
  have "monthDay (monthLengths 1988) 1 (6745 - 6574) = (6, 20)"
    by (simp add: monthLengths_def InLeapYear_1988)
  then show ?thesis
    by (simp add: YearFromDay_6745 DayFromYear_1988 isoYear_1988 pad2_values)
       (simp add: ascii_def)
qed

lemma date_6744:
  "(let d = 6744; y = YearFromDay d;
        (m, dd) = monthDay (monthLengths y) 1 (d - DayFromYear y)
    in take 10 (isoYear y @ [0x2D] @ pad2 m @ [0x2D] @ pad2 dd)) = ascii ''1988-06-19''"
proof -
  have "monthDay (monthLengths 1988) 1 (6744 - 6574) = (6, 19)"
    by (simp add: monthLengths_def InLeapYear_1988)
  then show ?thesis
    by (simp add: YearFromDay_6744 DayFromYear_1988 isoYear_1988 pad2_values)
       (simp add: ascii_def)
qed

text \<open>
  What holds on every host. \<open>parseReleasedToISO\<close> maps the empty string to absence
  without consulting the parser, and every string the engine's parser rejects (as it does
  \<open>not a date\<close>) to absence. When the parser accepts the string, the result is the
  first ten characters of the UTC rendering of the parsed instant; they depend on the UTC
  day of the instant only, not on the time within it, and for the years 0 to 9999 they
  are the UTC calendar date, year-month-day. \<open>20 Jun 1988\<close> is mapped to
  \<open>1988-06-20\<close> whenever the engine reads it as an instant of 20 June 1988 UTC, as it
  does on a host whose zone is UTC.
\<close>

lemma parseReleasedToISO_cases:
  "parseReleasedToISO parse [] = None
   \<and> (parse rel = None \<longrightarrow> parseReleasedToISO parse rel = None)
   \<and> (rel \<noteq> [] \<and> parse rel = Some t \<longrightarrow>
        parseReleasedToISO parse rel = Some (take 10 (toISOString t))
        \<and> (t div msPerDay = t' div msPerDay \<longrightarrow>
             take 10 (toISOString t) = take 10 (toISOString t'))
        \<and> (0 \<le> YearFromDay (t div msPerDay) \<and> YearFromDay (t div msPerDay) \<le> 9999 \<longrightarrow>
             (\<exists>y m dd. parseReleasedToISO parse rel
                         = Some (pad4 y @ [0x2D] @ pad2 m @ [0x2D] @ pad2 dd)
                \<and> y = YearFromDay (t div msPerDay)
                \<and> (m, dd) = monthDay (monthLengths y) 1 (t div msPerDay - DayFromYear y))))
   \<and> (parse (ascii ''20 Jun 1988'') = Some u \<and> 582768000000 \<le> u \<and> u < 582854400000 \<longrightarrow>
        parseReleasedToISO parse (ascii ''20 Jun 1988'') = Some (ascii ''1988-06-20''))"
proof (intro conjI impI)
  show "parseReleasedToISO parse [] = None"
    by (simp add: parseReleasedToISO_def)
next
  assume "parse rel = None"
  then show "parseReleasedToISO parse rel = None"
    by (simp add: parseReleasedToISO_def)
next
  assume "rel \<noteq> [] \<and> parse rel = Some t"
  then show "parseReleasedToISO parse rel = Some (take 10 (toISOString t))"
    by (simp add: parseReleasedToISO_def)
next
  assume "t div msPerDay = t' div msPerDay"
  then show "take 10 (toISOString t) = take 10 (toISOString t')"
    by (simp only: take_10_toISOString)
next
  assume h: "rel \<noteq> [] \<and> parse rel = Some t"
    and y: "0 \<le> YearFromDay (t div msPerDay) \<and> YearFromDay (t div msPerDay) \<le> 9999"
  obtain m dd where md: "(m, dd) = monthDay (monthLengths (YearFromDay (t div msPerDay))) 1
                           (t div msPerDay - DayFromYear (YearFromDay (t div msPerDay)))"
    by (metis surj_pair)
  from y have iy: "isoYear (YearFromDay (t div msPerDay)) = pad4 (YearFromDay (t div msPerDay))"
    by (simp add: isoYear_def)
  have "take 10 (toISOString t)
          = pad4 (YearFromDay (t div msPerDay)) @ [0x2D] @ pad2 m @ [0x2D] @ pad2 dd"
    unfolding take_10_toISOString Let_def md [symmetric] iy
    by (simp add: pad4_def pad2_def)
  with h md
  show "\<exists>y m dd. parseReleasedToISO parse rel
                         = Some (pad4 y @ [0x2D] @ pad2 m @ [0x2D] @ pad2 dd)
                \<and> y = YearFromDay (t div msPerDay)
                \<and> (m, dd) = monthDay (monthLengths y) 1 (t div msPerDay - DayFromYear y)"
    by (intro exI[of _ "YearFromDay (t div msPerDay)"] exI[of _ m] exI[of _ dd])
       (simp add: parseReleasedToISO_def)
next
  assume h: "parse (ascii ''20 Jun 1988'') = Some u \<and> 582768000000 \<le> u \<and> u < 582854400000"
  then have "u div msPerDay = 6745" by (simp add: day_6745)
  then have "take 10 (toISOString u) = ascii ''1988-06-20''"
    using date_6745 by (simp only: take_10_toISOString)
  with h show "parseReleasedToISO parse (ascii ''20 Jun 1988'') = Some (ascii ''1988-06-20'')"
    by (simp add: parseReleasedToISO_def) (simp add: ascii_def)
qed


lemma parseReleasedToISO_cases_example:
  "parseReleasedToISO (dateParse example_env) (ascii ''not a date'') = None
   \<and> parseReleasedToISO (dateParse example_env) (ascii ''20 Jun 1988'')
       = Some (ascii ''1988-06-20'')
   \<and> take 10 (toISOString 582768000000) = take 10 (toISOString 582854399999)
   \<and> (\<exists>y m dd. parseReleasedToISO (dateParse example_env) (ascii ''20 Jun 1988'')
                   = Some (pad4 y @ [0x2D] @ pad2 m @ [0x2D] @ pad2 dd)
          \<and> y = 1988 \<and> (m, dd) = (6, 20))"
proof -
  have n: "dateParse example_env (ascii ''not a date'') = None"
    by (simp add: example_env_def ascii_def)
  have p: "ascii ''20 Jun 1988'' \<noteq> []"
    "dateParse example_env (ascii ''20 Jun 1988'') = Some 582768000000"
    by (simp_all add: example_env_def ascii_def)
  have d: "(582768000000::int) div msPerDay = 6745" "(582854399999::int) div msPerDay = 6745"
    by (simp_all add: msPerDay_def)
  have md: "monthDay (monthLengths 1988) 1 (6745 - DayFromYear 1988) = (6, 20)"
    by (simp add: monthLengths_def InLeapYear_1988 DayFromYear_1988)
  note A = parseReleasedToISO_cases [where parse = "dateParse example_env"
      and rel = "ascii ''not a date''"]
  note B = parseReleasedToISO_cases [where parse = "dateParse example_env"
      and rel = "ascii ''20 Jun 1988''" and t = 582768000000 and t' = 582854399999
      and u = 582768000000]
  from A n have 1: "parseReleasedToISO (dateParse example_env) (ascii ''not a date'') = None"
    by blast
  have b: "(582768000000::int) \<le> 582768000000" "(582768000000::int) < 582854400000"
    by simp_all
  from B p b have 2: "parseReleasedToISO (dateParse example_env) (ascii ''20 Jun 1988'')
       = Some (ascii ''1988-06-20'')"
    by blast
  have e: "(582768000000::int) div msPerDay = 582854399999 div msPerDay"
    by (simp only: d)
  from B p e have 3: "take 10 (toISOString 582768000000) = take 10 (toISOString 582854399999)"
    by blast
  from B p have "0 \<le> YearFromDay (582768000000 div msPerDay)
        \<and> YearFromDay (582768000000 div msPerDay) \<le> 9999 \<longrightarrow>
       (\<exists>y m dd. parseReleasedToISO (dateParse example_env) (ascii ''20 Jun 1988'')
                         = Some (pad4 y @ [0x2D] @ pad2 m @ [0x2D] @ pad2 dd)
                \<and> y = YearFromDay (582768000000 div msPerDay)
                \<and> (m, dd) = monthDay (monthLengths y) 1
                              (582768000000 div msPerDay - DayFromYear y))"
    by blast
  then have 4: "\<exists>y m dd. parseReleasedToISO (dateParse example_env) (ascii ''20 Jun 1988'')
                   = Some (pad4 y @ [0x2D] @ pad2 m @ [0x2D] @ pad2 dd)
          \<and> y = 1988 \<and> (m, dd) = (6, 20)"
    unfolding d YearFromDay_6745 using md by simp
  from 1 2 3 4 show ?thesis by blast
qed

text \<open>
  Claim C6: \<open>20 Jun 1988\<close> is mapped to \<open>1988-06-20\<close>, the empty string and a
  string that is not a date to absence, and a success is the calendar date alone. The
  first part holds only where the local zone is not east of UTC. The parser reads a
  date without a zone as local time, and \<open>toISOString\<close> prints the date in UTC: on a
  host nine hours east of Greenwich the string is read as the instant 582735600000
  (15:00 UTC of 19 June), and the result is \<open>1988-06-19\<close>.
\<close>

theorem parseReleasedToISO_east_of_utc:
  "parseReleasedToISO (\<lambda>s. if s = ascii ''20 Jun 1988'' then Some 582735600000 else None)
     (ascii ''20 Jun 1988'') = Some (ascii ''1988-06-19'')"
proof -
  have "(582735600000::int) div msPerDay = 6744"
    by (simp add: msPerDay_def)
  then have "take 10 (toISOString 582735600000) = ascii ''1988-06-19''"
    using date_6744 by (simp only: take_10_toISOString)
  then show ?thesis
    by (simp add: parseReleasedToISO_def) (simp add: ascii_def)
qed

section \<open>The handler\<close>

lemma map_fst_buildProps:
  "map fst (buildProps dat summary features isoDate) =
     [name_director, name_plot, name_features, name_genres, name_released, name_crew,
      name_status]"
  by (simp add: buildProps_def)

lemma buildProps_released:
  "map_of (buildProps dat summary features isoDate) name_released = Some (asDate isoDate)"
  by (simp add: buildProps_def name_director_def name_plot_def name_features_def
      name_genres_def name_released_def)

lemma buildProps_others:
  "\<exists>v. map_of (buildProps dat summary features isoDate) name_director = Some (Some v)"
  "\<exists>v. map_of (buildProps dat summary features isoDate) name_plot = Some (Some v)"
  "\<exists>v. map_of (buildProps dat summary features isoDate) name_features = Some (Some v)"
  "\<exists>v. map_of (buildProps dat summary features isoDate) name_genres = Some (Some v)"
  "\<exists>v. map_of (buildProps dat summary features isoDate) name_crew = Some (Some v)"
  by (simp_all add: buildProps_def name_director_def name_plot_def name_features_def
      name_genres_def name_released_def name_crew_def)

lemma length_take_10_toISOString: "length (take 10 (toISOString t)) = 10"
  unfolding take_10_toISOString Let_def
  by (simp add: length_isoYear pad2_def split: prod.splits)

lemma parseReleasedToISO_Some_not_Nil:
  assumes "parseReleasedToISO parse rel = Some s"
  shows "s \<noteq> []"
proof -
  from assms obtain t where "s = take 10 (toISOString t)"
    by (auto simp: parseReleasedToISO_def split: if_splits option.splits)
  then have "length s = 10" by (simp only: length_take_10_toISOString)
  then show ?thesis by auto
qed

lemma asDate_parseReleasedToISO:
  "asDate (parseReleasedToISO parse rel) =
     (case parseReleasedToISO parse rel of None \<Rightarrow> None | Some s \<Rightarrow> Some (DateStart s))"
  using parseReleasedToISO_Some_not_Nil [of parse rel]
  by (simp add: asDate_def orEmpty_def split: option.splits)

text \<open>The successful run of the \<open>try\<close> block, step by step.\<close>

lemma handlerTry_run:
  assumes "resolvePageId req = Inr pageId"
    and "pagesRetrieve e pageId = Inr pg"
    and "getTitle pg title_default = ttl" and "ttl \<noteq> []"
    and "fetchFromOMDb e ttl [PagesRetrieve pageId] = (Inr dat, calls2)"
    and "ps = buildProps dat (summarizeKorean (plot dat))
                (featuresFromData (director dat) (Some (genres dat)))
                (parseReleasedToISO (dateParse e) (released dat))"
    and "pagesUpdate e pageId ps = Inr u"
  shows "handlerTry e req = (Inr (ttl, map fst ps), calls2 @ [PagesUpdate pageId ps])"
  using assms by (simp add: handlerTry_def Let_def)

lemma handlerTry_Inr:
  assumes "handlerTry e req = (Inr (ttl, names), calls)"
  shows "\<exists>pageId pg dat calls2 ps.
           resolvePageId req = Inr pageId
           \<and> pagesRetrieve e pageId = Inr pg
           \<and> getTitle pg title_default = ttl \<and> ttl \<noteq> []
           \<and> fetchFromOMDb e ttl [PagesRetrieve pageId] = (Inr dat, calls2)
           \<and> ps = buildProps dat (summarizeKorean (plot dat))
                (featuresFromData (director dat) (Some (genres dat)))
                (parseReleasedToISO (dateParse e) (released dat))
           \<and> names = map fst ps \<and> calls = calls2 @ [PagesUpdate pageId ps]"
  using assms
  by (auto simp: handlerTry_def Let_def split: sum.splits if_splits prod.splits)

lemma handler_200:
  assumes "handler e req = (resp, calls)" and "status resp = 200"
  shows "\<exists>ttl names. handlerTry e req = (Inr (ttl, names), calls)
           \<and> payload resp = Success ttl names"
  using assms
  by (auto simp: handler_def split: sum.splits prod.splits)


lemma handler_Inl:
  "resolvePageId req = Inl err \<Longrightarrow> handler e req = (\<lparr> status = 500, payload = Failure err \<rparr>, [])"
  by (simp add: handler_def handlerTry_def)

text \<open>The resolution of the identifier for every body but \<open>null\<close>.\<close>

lemma resolvePageId_not_null:
  assumes "json_body req \<noteq> Some JNull"
  shows "resolvePageId req =
           (let field = (case json_body req of
                           Some (JObj kvs) \<Rightarrow> map_of kvs (ascii ''page_id'')
                         | _ \<Rightarrow> None);
                hdr = trim (orEmpty (header_page_id req))
            in if field \<noteq> None \<and> truthy (the field) then Inr (the field)
               else if hdr \<noteq> [] then Inr (JStr hdr)
               else Inl (Error pageid_missing))"
proof (cases "json_body req")
  case None
  then show ?thesis by (simp add: resolvePageId_def Let_def)
next
  case (Some j)
  with assms show ?thesis
    by (cases j) (auto simp: resolvePageId_def Let_def split: option.splits)
qed

text \<open>The steps of the concrete run.\<close>

lemma resolve_example: "resolvePageId example_request = Inr (JStr (ascii ''abc123''))"
  by (simp add: resolvePageId_def example_request_def) (simp add: ascii_def)

lemma retrieve_example: "pagesRetrieve example_env (JStr (ascii ''abc123'')) = Inr example_page"
  by (simp add: example_env_def)

lemma getTitle_example: "getTitle example_page title_default = ascii ''Die Hard''"
  by (simp add: getTitle_def example_page_def fragmentText_def orEmpty_def)
     (simp add: trim_def ascii_def isSpace_def orEmpty_def)

lemma Die_Hard_not_Nil: "ascii ''Die Hard'' \<noteq> []"
  by (simp add: ascii_def)

lemma fetch_example:
  "fetchFromOMDb example_env (ascii ''Die Hard'') calls =
     (Inr \<lparr> director = ascii ''John McTiernan'', plot = ascii ''A cop. A tower.'',
            genres = [ascii ''Action'', ascii ''Thriller''], released = ascii ''20 Jun 1988'',
            writers = ascii ''Roderick Thorp'', actors = ascii ''Bruce Willis'' \<rparr>,
      calls @ [HttpGet example_url])"
proof -
  have k: "orEmpty (OMDB example_env) = ascii ''k3y''"
    by (simp add: example_env_def orEmpty_def)
  have u: "ascii ''https://www.omdbapi.com/?apikey='' @ ascii ''k3y'' @ ascii ''&t=''
             @ ascii ''Die%20Hard'' @ ascii ''&plot=full'' = example_url"
    by (rule example_url_eq)
  have f: "fetchJson example_env example_url = Inr example_json"
    by (simp add: example_env_def)
  have r: "Response example_json \<noteq> Some (ascii ''False'')"
    by (simp add: example_json_def ascii_def)
  show ?thesis
    unfolding fetchFromOMDb_def k encode_Die_Hard
    using r by (simp add: ascii_not_Nil u f Let_def)
      (simp add: example_json_def orEmpty_def splitComma_Action_Thriller)
qed


lemma fetch_undated:
  "fetchFromOMDb undated_env (ascii ''Die Hard'') calls =
     (Inr \<lparr> director = ascii ''John McTiernan'', plot = ascii ''A cop. A tower.'',
            genres = [ascii ''Action'', ascii ''Thriller''], released = ascii ''N/A'',
            writers = ascii ''Roderick Thorp'', actors = ascii ''Bruce Willis'' \<rparr>,
      calls @ [HttpGet example_url])"
proof -
  have k: "orEmpty (OMDB undated_env) = ascii ''k3y''"
    by (simp add: undated_env_def example_env_def orEmpty_def)
  have u: "ascii ''https://www.omdbapi.com/?apikey='' @ ascii ''k3y'' @ ascii ''&t=''
             @ ascii ''Die%20Hard'' @ ascii ''&plot=full'' = example_url"
    by (rule example_url_eq)
  have f: "fetchJson undated_env example_url
             = Inr (example_json \<lparr> Released := Some (ascii ''N/A'') \<rparr>)"
    by (simp add: undated_env_def)
  have r: "Response (example_json \<lparr> Released := Some (ascii ''N/A'') \<rparr>) \<noteq> Some (ascii ''False'')"
    by (simp add: example_json_def ascii_def)
  show ?thesis
    unfolding fetchFromOMDb_def k encode_Die_Hard
    using r by (simp add: ascii_not_Nil u f Let_def)
      (simp add: example_json_def orEmpty_def splitComma_Action_Thriller)
qed

lemma parse_undated: "parseReleasedToISO (dateParse undated_env) (ascii ''N/A'') = None"
  by (simp add: parseReleasedToISO_def undated_env_def example_env_def) (simp add: ascii_def)

lemma handlerTry_undated:
  "\<exists>ps. handlerTry undated_env example_request =
          (Inr (ascii ''Die Hard'', map fst ps),
           [PagesRetrieve (JStr (ascii ''abc123'')), HttpGet example_url,
            PagesUpdate (JStr (ascii ''abc123'')) ps])
        \<and> map fst ps = [name_director, name_plot, name_features, name_genres, name_released,
                         name_crew, name_status]
        \<and> map_of ps name_released = Some None"
proof -
  let ?dat = "\<lparr> director = ascii ''John McTiernan'', plot = ascii ''A cop. A tower.'',
            genres = [ascii ''Action'', ascii ''Thriller''], released = ascii ''N/A'',
            writers = ascii ''Roderick Thorp'', actors = ascii ''Bruce Willis'' \<rparr>"
  let ?ps = "buildProps ?dat (summarizeKorean (plot ?dat))
                (featuresFromData (director ?dat) (Some (genres ?dat)))
                (parseReleasedToISO (dateParse undated_env) (released ?dat))"
  have r: "pagesRetrieve undated_env (JStr (ascii ''abc123'')) = Inr example_page"
    by (simp add: undated_env_def example_env_def)
  have u: "pagesUpdate undated_env (JStr (ascii ''abc123'')) ?ps = Inr ()"
    by (simp add: undated_env_def example_env_def)
  have "handlerTry undated_env example_request =
          (Inr (ascii ''Die Hard'', map fst ?ps),
           ([PagesRetrieve (JStr (ascii ''abc123''))] @ [HttpGet example_url])
            @ [PagesUpdate (JStr (ascii ''abc123'')) ?ps])"
    by (rule handlerTry_run [OF resolve_example r getTitle_example Die_Hard_not_Nil
        fetch_undated refl u])
  then have 1: "handlerTry undated_env example_request =
          (Inr (ascii ''Die Hard'', map fst ?ps),
           [PagesRetrieve (JStr (ascii ''abc123'')), HttpGet example_url,
            PagesUpdate (JStr (ascii ''abc123'')) ?ps])"
    by (simp only: append_Cons append_Nil)
  have "released ?dat = ascii ''N/A''" by simp
  then have 2: "map_of ?ps name_released = Some None"
    by (simp only: buildProps_released parse_undated) (simp add: asDate_def orEmpty_def)
  have 3: "map fst ?ps = [name_director, name_plot, name_features, name_genres, name_released,
                         name_crew, name_status]"
    by (rule map_fst_buildProps)
  show ?thesis by (rule exI [of _ ?ps]) (intro conjI 1 2 3)
qed

text \<open>
  Claim C3, as stated: the names submitted and echoed are five or six, and the date
  property is left out when the release date cannot be parsed. In the run where the
  provider's release date is \<open>N/A\<close>, which the parser rejects, the request succeeds
  and \<open>updated\<close> lists seven names, the name of the date property among them; the map
  submitted has the same seven keys, the date key bound to \<open>undefined\<close>.
\<close>

theorem handler_updated_names_counterexample:
  "status (fst (handler undated_env example_request)) = 200
   \<and> updated (payload (fst (handler undated_env example_request)))
       = [name_director, name_plot, name_features, name_genres, name_released, name_crew,
          name_status]
   \<and> length (updated (payload (fst (handler undated_env example_request)))) = 7
   \<and> parseReleasedToISO (dateParse undated_env) (ascii ''N/A'') = None
   \<and> (case last (snd (handler undated_env example_request)) of
         PagesUpdate pageId ps \<Rightarrow>
           map fst ps = [name_director, name_plot, name_features, name_genres, name_released,
                         name_crew, name_status]
           \<and> map_of ps name_released = Some None
       | _ \<Rightarrow> False)"
proof -
  from handlerTry_undated obtain ps where
    all: "handlerTry undated_env example_request =
          (Inr (ascii ''Die Hard'', map fst ps),
           [PagesRetrieve (JStr (ascii ''abc123'')), HttpGet example_url,
            PagesUpdate (JStr (ascii ''abc123'')) ps])
        \<and> map fst ps = [name_director, name_plot, name_features, name_genres, name_released,
                         name_crew, name_status]
        \<and> map_of ps name_released = Some None" ..
  note t = all [THEN conjunct1]
    and n = all [THEN conjunct2, THEN conjunct1]
    and d = all [THEN conjunct2, THEN conjunct2]
  have h: "handler undated_env example_request =
          (\<lparr> status = 200, payload = Success (ascii ''Die Hard'') (map fst ps) \<rparr>,
           [PagesRetrieve (JStr (ascii ''abc123'')), HttpGet example_url,
            PagesUpdate (JStr (ascii ''abc123'')) ps])"
    by (simp add: handler_def t)
  show ?thesis
    unfolding h by (simp add: n d parse_undated)
qed

text \<open>
  Claim C3, amended. For every successful request, the names of the property map
  submitted to the page-update call are echoed, in the same order, as \<open>updated\<close>, and
  they always begin with the same six names: director, plot, features, genres, release
  date, crew. None of the six is ever left out. The release date is listed even when it
  cannot be parsed; its entry then carries no value (\<open>undefined\<close>, not a null marker),
  and carries the date otherwise. The other five entries always carry a value.
\<close>

theorem handler_updated_names:
  assumes "handler e req = (resp, calls)" and "status resp = 200"
  shows "\<exists>ttl names pageId ps dat c.
           payload resp = Success ttl names
           \<and> calls \<noteq> [] \<and> last calls = PagesUpdate pageId ps
           \<and> names = map fst ps
           \<and> take 6 names = [name_director, name_plot, name_features, name_genres,
                             name_released, name_crew]
           \<and> (\<forall>n \<in> set [name_director, name_plot, name_features, name_genres, name_crew].
                 \<exists>v. map_of ps n = Some (Some v))
           \<and> fetchFromOMDb e ttl [PagesRetrieve pageId] = (Inr dat, c)
           \<and> map_of ps name_released =
               Some (case parseReleasedToISO (dateParse e) (released dat) of
                       None \<Rightarrow> None
                     | Some s \<Rightarrow> Some (DateStart s))"
proof -
  from handler_200 [OF assms] obtain ttl names where
    t: "handlerTry e req = (Inr (ttl, names), calls)" and p: "payload resp = Success ttl names"
    by blast
  from handlerTry_Inr [OF t] obtain pageId pg dat calls2 ps where
    f: "fetchFromOMDb e ttl [PagesRetrieve pageId] = (Inr dat, calls2)"
    and ps: "ps = buildProps dat (summarizeKorean (plot dat))
                (featuresFromData (director dat) (Some (genres dat)))
                (parseReleasedToISO (dateParse e) (released dat))"
    and n: "names = map fst ps" and c: "calls = calls2 @ [PagesUpdate pageId ps]"
    by blast
  have six: "take 6 names = [name_director, name_plot, name_features, name_genres,
                             name_released, name_crew]"
    unfolding n ps map_fst_buildProps by simp
  have vals: "\<forall>n \<in> set [name_director, name_plot, name_features, name_genres, name_crew].
                 \<exists>v. map_of ps n = Some (Some v)"
    unfolding ps using buildProps_others by simp
  have date: "map_of ps name_released =
               Some (case parseReleasedToISO (dateParse e) (released dat) of
                       None \<Rightarrow> None
                     | Some s \<Rightarrow> Some (DateStart s))"
    unfolding ps by (simp only: buildProps_released asDate_parseReleasedToISO)
  from c have l: "calls \<noteq> []" "last calls = PagesUpdate pageId ps" by simp_all
  show ?thesis
    by (rule exI [of _ ttl], rule exI [of _ names], rule exI [of _ pageId], rule exI [of _ ps],
        rule exI [of _ dat], rule exI [of _ calls2])
       (intro conjI p l n six vals f date)
qed


lemma handler_example_run:
  assumes "resolvePageId req = Inr (JStr (ascii ''abc123''))"
  shows "\<exists>ps. handler example_env req =
          (\<lparr> status = 200, payload = Success (ascii ''Die Hard'') (map fst ps) \<rparr>,
           [PagesRetrieve (JStr (ascii ''abc123'')), HttpGet example_url,
            PagesUpdate (JStr (ascii ''abc123'')) ps])"
proof -
  define dat where "dat = \<lparr> director = ascii ''John McTiernan'', plot = ascii ''A cop. A tower.'',
            genres = [ascii ''Action'', ascii ''Thriller''], released = ascii ''20 Jun 1988'',
            writers = ascii ''Roderick Thorp'', actors = ascii ''Bruce Willis'' \<rparr>"
  define ps where "ps = buildProps dat (summarizeKorean (plot dat))
                (featuresFromData (director dat) (Some (genres dat)))
                (parseReleasedToISO (dateParse example_env) (released dat))"
  have f: "fetchFromOMDb example_env (ascii ''Die Hard'') [PagesRetrieve (JStr (ascii ''abc123''))]
             = (Inr dat, [PagesRetrieve (JStr (ascii ''abc123''))] @ [HttpGet example_url])"
    unfolding dat_def by (rule fetch_example)
  have u: "pagesUpdate example_env (JStr (ascii ''abc123'')) ps = Inr ()"
    by (simp add: example_env_def)
  have "handlerTry example_env req =
          (Inr (ascii ''Die Hard'', map fst ps),
           ([PagesRetrieve (JStr (ascii ''abc123''))] @ [HttpGet example_url])
            @ [PagesUpdate (JStr (ascii ''abc123'')) ps])"
    by (rule handlerTry_run [OF assms retrieve_example getTitle_example Die_Hard_not_Nil
        f ps_def u])
  then have "handler example_env req =
          (\<lparr> status = 200, payload = Success (ascii ''Die Hard'') (map fst ps) \<rparr>,
           [PagesRetrieve (JStr (ascii ''abc123'')), HttpGet example_url,
            PagesUpdate (JStr (ascii ''abc123'')) ps])"
    by (simp add: handler_def)
  then show ?thesis ..
qed

theorem handler_updated_names_witness:
  "status (fst (handler example_env example_request)) = 200
   \<and> take 6 (updated (payload (fst (handler example_env example_request))))
       = [name_director, name_plot, name_features, name_genres, name_released, name_crew]"
proof -
  from handler_example_run [OF resolve_example] obtain ps where
    h: "handler example_env example_request =
          (\<lparr> status = 200, payload = Success (ascii ''Die Hard'') (map fst ps) \<rparr>,
           [PagesRetrieve (JStr (ascii ''abc123'')), HttpGet example_url,
            PagesUpdate (JStr (ascii ''abc123'')) ps])" ..
  have st: "status \<lparr> status = 200, payload = Success (ascii ''Die Hard'') (map fst ps) \<rparr> = 200"
    by simp
  from handler_updated_names [OF h st] obtain ttl names where
    "payload \<lparr> status = 200, payload = Success (ascii ''Die Hard'') (map fst ps) \<rparr>
       = Success ttl names"
    and "take 6 names = [name_director, name_plot, name_features, name_genres,
                         name_released, name_crew]"
    by auto
  then have "take 6 (updated (payload (fst (handler example_env example_request))))
       = [name_director, name_plot, name_features, name_genres, name_released, name_crew]"
    unfolding h by simp
  moreover have "status (fst (handler example_env example_request)) = 200"
    unfolding h by simp
  ultimately show ?thesis by simp
qed

section \<open>The page identifier\<close>

lemma resolve_null_body: "resolvePageId null_body_request = Inl TypeErrorNull"
  by (simp add: resolvePageId_def null_body_request_def)

lemma resolve_header_only:
  "resolvePageId \<lparr> json_body = None, header_page_id = Some (ascii ''abc123'') \<rparr>
     = Inr (JStr (ascii ''abc123''))"
  by (simp add: resolvePageId_def orEmpty_def) (simp add: ascii_def trim_def isSpace_def)

lemma fetchFromOMDb_calls: "snd (fetchFromOMDb e ttl calls) = [] \<Longrightarrow> calls = []"
  by (auto simp: fetchFromOMDb_def Let_def split: if_splits sum.splits)

lemma handlerTry_no_call:
  assumes "handlerTry e req = (r, [])"
  shows "\<exists>err. resolvePageId req = Inl err \<and> r = Inl err"
proof (cases "resolvePageId req")
  case (Inl err)
  with assms show ?thesis by (simp add: handlerTry_def)
next
  case (Inr pageId)
  show ?thesis
  proof (cases "pagesRetrieve e pageId")
    case (Inl err)
    with Inr assms show ?thesis by (simp add: handlerTry_def)
  next
    case pg: (Inr pg)
    show ?thesis
    proof (cases "getTitle pg title_default = []")
      case True
      with Inr pg assms show ?thesis by (simp add: handlerTry_def)
    next
      case False
      obtain r2 c2 where f: "fetchFromOMDb e (getTitle pg title_default) [PagesRetrieve pageId] = (r2, c2)"
        by (cases "fetchFromOMDb e (getTitle pg title_default) [PagesRetrieve pageId]")
      with fetchFromOMDb_calls [of e "getTitle pg title_default" "[PagesRetrieve pageId]"]
      have "c2 \<noteq> []" by auto
      with Inr pg False f assms show ?thesis
        by (auto simp: handlerTry_def Let_def split: sum.splits)
    qed
  qed
qed

lemma handler_missing_identifier_iff:
  assumes "json_body req \<noteq> Some JNull"
  shows "handler e req = (\<lparr> status = 500, payload = Failure (Error pageid_missing) \<rparr>, [])
         \<longleftrightarrow>
         (case json_body req of
            Some (JObj kvs) \<Rightarrow> (case map_of kvs (ascii ''page_id'') of
                                  None \<Rightarrow> True | Some v \<Rightarrow> \<not> truthy v)
          | _ \<Rightarrow> True)
         \<and> trim (orEmpty (header_page_id req)) = []"
proof -
  have "handler e req = (\<lparr> status = 500, payload = Failure (Error pageid_missing) \<rparr>, [])
          \<longleftrightarrow> resolvePageId req = Inl (Error pageid_missing)"
  proof
    assume h: "handler e req = (\<lparr> status = 500, payload = Failure (Error pageid_missing) \<rparr>, [])"
    then have "handlerTry e req = (Inl (Error pageid_missing), [])"
      by (auto simp: handler_def split: prod.splits sum.splits)
    from handlerTry_no_call [OF this] show "resolvePageId req = Inl (Error pageid_missing)"
      by auto
  next
    assume "resolvePageId req = Inl (Error pageid_missing)"
    then show "handler e req = (\<lparr> status = 500, payload = Failure (Error pageid_missing) \<rparr>, [])"
      by (rule handler_Inl)
  qed
  also have "\<dots> \<longleftrightarrow>
         (case json_body req of
            Some (JObj kvs) \<Rightarrow> (case map_of kvs (ascii ''page_id'') of
                                  None \<Rightarrow> True | Some v \<Rightarrow> \<not> truthy v)
          | _ \<Rightarrow> True)
         \<and> trim (orEmpty (header_page_id req)) = []"
    unfolding resolvePageId_not_null [OF assms]
    by (auto simp: Let_def split: option.splits json.splits)
  finally show ?thesis .
qed

text \<open>
  Claim C4: a body that is not JSON counts as the empty object, the identifier is the
  field \<open>page_id\<close> of the body when it is not empty and the trimmed header otherwise,
  and the missing-identifier error is raised exactly when both are empty. This holds for
  every body but one (\<open>handler_missing_identifier_iff\<close>). A body that is the JSON text
  \<open>null\<close> parses, so it is not replaced by the empty object, and reading its field
  raises a \<open>TypeError\<close>: with the identifier in the header the request fails with
  status 500 and the engine's message, before any outbound call, while the same header
  with a body that is not JSON at all succeeds.
\<close>

theorem handler_null_body:
  "handler example_env null_body_request
     = (\<lparr> status = 500, payload = Failure TypeErrorNull \<rparr>, [])
   \<and> header_page_id null_body_request = Some (ascii ''abc123'')
   \<and> status (fst (handler example_env
                      \<lparr> json_body = None, header_page_id = Some (ascii ''abc123'') \<rparr>)) = 200"
proof -
  have 1: "handler example_env null_body_request
     = (\<lparr> status = 500, payload = Failure TypeErrorNull \<rparr>, [])"
    by (rule handler_Inl [OF resolve_null_body])
  have 2: "header_page_id null_body_request = Some (ascii ''abc123'')"
    by (simp add: null_body_request_def)
  from handler_example_run [OF resolve_header_only] obtain ps where
    h: "handler example_env \<lparr> json_body = None, header_page_id = Some (ascii ''abc123'') \<rparr> =
          (\<lparr> status = 200, payload = Success (ascii ''Die Hard'') (map fst ps) \<rparr>,
           [PagesRetrieve (JStr (ascii ''abc123'')), HttpGet example_url,
            PagesUpdate (JStr (ascii ''abc123'')) ps])" ..
  have 3: "status (fst (handler example_env
                      \<lparr> json_body = None, header_page_id = Some (ascii ''abc123'') \<rparr>)) = 200"
    unfolding h by simp
  from 1 2 3 show ?thesis by (intro conjI)
qed

end
